theory Spec2Isabelle
  imports Complex_Main "HOL-Library.Product_Lexorder" "HOL-Library.Sublist"
begin

section \<open>Data model of the globe viewer (src/main.js)\<close>

text \<open>
  The embedding follows the class \<open>GlobeViewer\<close> of \<open>src/main.js\<close>. JavaScript
  numbers are modelled as \<open>real\<close> (they are only stored and copied in the parts
  modelled here), byte sizes and millisecond time stamps as \<open>nat\<close>, strings as
  \<open>string\<close>. An object that the program shares by reference (an upload entry) lives
  in an explicit object store and is named by its address.

  The model covers the load of the default texture at startup with its fallback, the
  three load paths of the user (a dropped file, a preset URL, a cached data URL), the
  upload history with its IndexedDB store, and the saving and restoring of view
  settings. Outside it are the timers, the sliders and button labels of the page, the
  animation loop, and exceptions thrown by the renderer, the canvas, the page or
  IndexedDB (the \<open>catch\<close> branches of lines 380-384 and 619-623 run only on such an
  exception). What the camera library computes in \<open>controls.update()\<close> is taken
  from the environment.
\<close>

type_synonym vec3 = "real \<times> real \<times> real"

text \<open>The dropped \<open>File\<close>: its \<open>name\<close>, \<open>type\<close> (MIME type) and \<open>size\<close> in bytes.\<close>

record File =
  file_name :: string
  file_type :: string
  file_size :: nat

text \<open>
  The object written by \<open>saveCurrentSettings\<close> (lines 802-823) and read back by
  \<open>restoreSavedSettings\<close> (lines 843-895). The reader guards each of the two groups
  separately (\<open>if (savedSettings.lighting)\<close>, \<open>if (savedSettings.camera)\<close>), so
  each group is optional in the model; within a group all fields are present.
\<close>

record Lighting =
  ambientBrightness_s :: real
  directionalBrightness_s :: real
  lightRotation_s :: real

record CameraSettings =
  position :: vec3
  target :: vec3

record SavedSettings =
  lighting :: "Lighting option"
  camera :: "CameraSettings option"

text \<open>
  The upload entry of \<open>addToUploadHistory\<close> (lines 646-654). The field \<open>id\<close> is
  called \<open>ident\<close> here. \<open>timestamp\<close> is the millisecond value of the \<open>Date\<close>
  object; entries written by this program always carry a \<open>Date\<close>, so the branch of
  \<open>loadUploadHistory\<close> that parses a textual time stamp (lines 767-771) is not
  modelled.
\<close>

record UploadEntry =
  ident :: real
  name :: string
  thumbnailUrl :: string
  originalDataUrl :: string
  timestamp :: nat
  savedSettings :: "SavedSettings option"

text \<open>
  A texture object: the serial number of its creation (object identity) and, for a
  \<open>THREE.Texture\<close>, the \<open>src\<close> of the image it wraps; the fallback texture is a
  \<open>THREE.CanvasTexture\<close> (line 243).
\<close>

datatype Texture = Texture nat string | CanvasTexture nat

text \<open>
  What the program does to its collaborators (renderer, DOM), in the order it does it.
\<close>

datatype Effect =
    TextureDisposed Texture
  | TextureCreated Texture
  | TextureBound Texture
  | MaterialDisposed
  | LightingRestored Lighting
  | CameraRestored CameraSettings
  | ControlsUpdated
  | ErrorShown string
  | LoadingShown string
  | LoadingHidden
  | Alerted string

text \<open>
  The asynchronous operations in flight, each with the variables its completion callbacks
  close over: a \<open>FileReader\<close> reading the dropped file (line 400), and an \<open>Image\<close>
  decoding for \<open>loadDefaultTexture\<close> (line 209, with the flag \<open>skipLoading\<close>),
  \<open>loadTexture\<close> (line 392), \<open>loadTextureFromUrl\<close> (line 556) and
  \<open>loadTextureFromDataUrl\<close> (line 631).
\<close>

datatype Pending =
    DecodingDefault bool
  | ReadingFile File
  | DecodingFile File string
  | DecodingUrl string
  | DecodingDataUrl string "SavedSettings option" "nat option"

text \<open>
  What a completion callback reads from its environment while it runs: the thumbnail the
  canvas encodes, \<open>Date.now()\<close>, \<open>Math.random()\<close>, \<open>new Date()\<close>, whether
  the IndexedDB write and the cursor read that follow succeed, and what
  \<open>controls.update()\<close> of the camera library (\<open>OrbitControls\<close>, not part of the
  repository) makes of the rotation flag, the camera position and the orbit target: the
  position and the target it leaves.
\<close>

record Env =
  thumbnail :: string
  dateNow :: nat
  mathRandom :: real
  newDate :: nat
  putOk :: bool
  cursorOk :: bool
  orbit :: "bool \<Rightarrow> vec3 \<Rightarrow> vec3 \<Rightarrow> vec3 \<times> vec3"

datatype Completion =
    ReaderLoaded string
  | ReaderError
  | ImgLoaded Env
  | ImgError

text \<open>
  The fields of \<open>GlobeViewer\<close> (constructor, lines 5-22) that the texture life cycle and
  the upload history use, the DOM state they write, and the bookkeeping of the model:
  \<open>objects\<close> is the object store of upload entries (an address is an index),
  \<open>textures_created\<close> numbers the texture objects, \<open>pending\<close> holds the
  operations in flight and \<open>trace\<close> the effects so far. \<open>db = None\<close> is the
  \<open>null\<close> connection; \<open>Some store\<close> is an open connection to the object store
  \<open>textures\<close> with its records.
\<close>

record GlobeViewer =
  currentTexture :: "Texture option"
  material_map :: "Texture option"
  lightRotation :: real
  ambientBrightness :: real
  directionalBrightness :: real
  ambientLight_intensity :: real
  directionalLight_intensity :: real
  directionalLight_position :: vec3
  autoRotate :: bool
  controls_autoRotate :: bool
  camera_position :: vec3
  controls_target :: vec3
  uploadHistory :: "nat list"
  db :: "UploadEntry list option"
  currentUploadEntry :: "nat option"
  errorMessage_text :: string
  errorMessage_hidden :: bool
  loadingOverlay_text :: string
  loadingOverlay_visible :: bool
  userTextures :: "nat list"
  objects :: "UploadEntry list"
  textures_created :: nat
  pending :: "Pending list"
  trace :: "Effect list"

section \<open>Small operations\<close>

text \<open>
  \<open>showError\<close> (lines 301-310); the timer that hides the message again after five
  seconds is not modelled.
\<close>

definition showError :: "string \<Rightarrow> GlobeViewer \<Rightarrow> GlobeViewer" where
  "showError message s =
     s\<lparr>errorMessage_text := message, errorMessage_hidden := False,
       trace := trace s @ [ErrorShown message]\<rparr>"

text \<open>\<open>showLoading\<close> and \<open>hideLoading\<close> (lines 919-935), with the overlay element present.\<close>

definition showLoading :: "string \<Rightarrow> GlobeViewer \<Rightarrow> GlobeViewer" where
  "showLoading txt s =
     s\<lparr>loadingOverlay_text := txt, loadingOverlay_visible := True,
       trace := trace s @ [LoadingShown txt]\<rparr>"

definition hideLoading :: "GlobeViewer \<Rightarrow> GlobeViewer" where
  "hideLoading s = s\<lparr>loadingOverlay_visible := False, trace := trace s @ [LoadingHidden]\<rparr>"

text \<open>
  \<open>toggleAutoRotate\<close> (lines 492-506), without the button's label and the constant
  rotation speed.
\<close>

definition toggleAutoRotate :: "GlobeViewer \<Rightarrow> GlobeViewer" where
  "toggleAutoRotate s =
     (let s1 = s\<lparr>autoRotate := \<not> autoRotate s\<rparr>
      in if autoRotate s1 then s1\<lparr>controls_autoRotate := True\<rparr>
         else s1\<lparr>controls_autoRotate := False\<rparr>)"

text \<open>\<open>updateLighting\<close> (lines 128-148); the light's target stays at the origin.\<close>

definition updateLighting :: "GlobeViewer \<Rightarrow> GlobeViewer" where
  "updateLighting s =
     (let rotationRad = (lightRotation s * pi) / 180;
          lightDistance = 5;
          cameraHeight = fst (snd (camera_position s));
          lightX = cos rotationRad * lightDistance;
          lightZ = sin rotationRad * lightDistance
      in s\<lparr>ambientLight_intensity := ambientBrightness s,
            directionalLight_intensity := directionalBrightness s,
            directionalLight_position := (lightX, cameraHeight, lightZ)\<rparr>)"

text \<open>
  \<open>if (this.currentTexture) { this.currentTexture.dispose(); }\<close> and
  \<open>new THREE.Texture(img)\<close>, as every load path has them, and
  \<open>this.controls.update()\<close>.
\<close>

definition controlsUpdate :: "Env \<Rightarrow> GlobeViewer \<Rightarrow> GlobeViewer" where
  "controlsUpdate env s =
     (let (p, t) = orbit env (controls_autoRotate s) (camera_position s) (controls_target s)
      in s\<lparr>camera_position := p, controls_target := t,
            trace := trace s @ [ControlsUpdated]\<rparr>)"


definition disposeCurrentTexture :: "GlobeViewer \<Rightarrow> GlobeViewer" where
  "disposeCurrentTexture s =
     (case currentTexture s of
        None \<Rightarrow> s
      | Some t \<Rightarrow> s\<lparr>trace := trace s @ [TextureDisposed t]\<rparr>)"

definition newTexture :: "string \<Rightarrow> GlobeViewer \<Rightarrow> Texture \<times> GlobeViewer" where
  "newTexture src s =
     (let t = Texture (textures_created s) src
      in (t, s\<lparr>textures_created := Suc (textures_created s),
                trace := trace s @ [TextureCreated t]\<rparr>))"

text \<open>
  \<open>String.prototype.split\<close> with a one-character separator: the pieces between the
  separators, never an empty array.
\<close>

fun js_split :: "char \<Rightarrow> string \<Rightarrow> string list" where
  "js_split c [] = [[]]"
| "js_split c (x # xs) =
     (if x = c then [] # js_split c xs
      else (case js_split c xs of
              [] \<Rightarrow> [[x]]
            | w # ws \<Rightarrow> (x # w) # ws))"

section \<open>The upload history and its IndexedDB store\<close>

text \<open>
  The object store \<open>textures\<close> has key path \<open>id\<close> (line 714): \<open>store.put\<close>
  replaces the record with the same key or adds a new one, and stores a copy of the
  object as it is at the call.
\<close>

definition store_put :: "UploadEntry \<Rightarrow> UploadEntry list \<Rightarrow> UploadEntry list" where
  "store_put e store = e # filter (\<lambda>x. ident x \<noteq> ident e) store"

text \<open>
  \<open>index.openCursor(null, 'prev')\<close> on the index \<open>timestamp\<close> (lines 752-755):
  IndexedDB orders an index by key and then by primary key, and \<open>'prev'\<close> walks that
  order backwards.
\<close>

definition index_key :: "UploadEntry \<Rightarrow> nat \<times> real" where
  "index_key e = (timestamp e, ident e)"

definition openCursor_prev :: "UploadEntry list \<Rightarrow> UploadEntry list" where
  "openCursor_prev store = rev (sort_key index_key store)"

text \<open>
  \<open>updateUploadHistoryUI\<close> (lines 663-695): the grid \<open>user-textures\<close> gets one
  item per entry of \<open>uploadHistory\<close>, each with a click handler that closes over its
  entry object.
\<close>

definition updateUploadHistoryUI :: "GlobeViewer \<Rightarrow> GlobeViewer" where
  "updateUploadHistoryUI s = s\<lparr>userTextures := uploadHistory s\<rparr>"

text \<open>
  \<open>loadUploadHistory\<close> (lines 745-779). The cursor hands out fresh copies of the
  records, newest first; the first ten become the history. With the cursor's
  \<open>onerror\<close> only a warning is logged.
\<close>

definition loadUploadHistory :: "Env \<Rightarrow> GlobeViewer \<Rightarrow> GlobeViewer" where
  "loadUploadHistory env s =
     (case db s of
        None \<Rightarrow> s
      | Some store \<Rightarrow>
          if cursorOk env then
            (let textures = openCursor_prev store;
                 base = length (objects s);
                 refs = [base ..< base + length textures]
             in updateUploadHistoryUI
                  (s\<lparr>objects := objects s @ textures, uploadHistory := take 10 refs\<rparr>))
          else s)"

text \<open>
  \<open>saveTextureToIndexedDB\<close> (lines 720-743), called with the address of the entry.
  Without a connection the entry is put in front of the in-memory list, which is cut to
  ten; with a connection the entry is written and, on success, the history is read back
  from the store. A failed transaction only logs a warning. The write and the read that
  follows are taken as one step.
\<close>

definition saveTextureToIndexedDB :: "Env \<Rightarrow> nat \<Rightarrow> GlobeViewer \<Rightarrow> GlobeViewer" where
  "saveTextureToIndexedDB env uploadEntry s =
     (case db s of
        None \<Rightarrow>
          (let h = uploadEntry # uploadHistory s;
               h' = (if length h > 10 then take 10 h else h)
           in updateUploadHistoryUI (s\<lparr>uploadHistory := h'\<rparr>))
      | Some store \<Rightarrow>
          if putOk env then
            loadUploadHistory env (s\<lparr>db := Some (store_put (objects s ! uploadEntry) store)\<rparr>)
          else s)"

text \<open>\<open>clearUploadHistory\<close> (lines 781-793).\<close>

definition clearUploadHistory :: "Env \<Rightarrow> GlobeViewer \<Rightarrow> GlobeViewer" where
  "clearUploadHistory env s =
     (let s1 = updateUploadHistoryUI (s\<lparr>uploadHistory := []\<rparr>)
      in case db s1 of
           None \<Rightarrow> s1
         | Some store \<Rightarrow> if putOk env then s1\<lparr>db := Some []\<rparr> else s1)"

text \<open>
  \<open>addToUploadHistory\<close> (lines 634-661): a new entry object (lines 646-654), made
  current and saved. \<open>src\<close> is \<open>img.src\<close>; the thumbnail is what the canvas
  encodes.
\<close>

definition new_uploadEntry :: "Env \<Rightarrow> File \<Rightarrow> string \<Rightarrow> UploadEntry" where
  "new_uploadEntry env file src =
     \<lparr>ident = real (dateNow env) + mathRandom env,
      name = hd (js_split (CHR ''.'') (file_name file)),
      thumbnailUrl = thumbnail env,
      originalDataUrl = src,
      timestamp = newDate env,
      savedSettings = None\<rparr>"

definition addToUploadHistory :: "Env \<Rightarrow> File \<Rightarrow> string \<Rightarrow> GlobeViewer \<Rightarrow> GlobeViewer" where
  "addToUploadHistory env file src s =
     (let uploadEntry = new_uploadEntry env file src;
          r = length (objects s);
          s1 = s\<lparr>objects := objects s @ [uploadEntry], currentUploadEntry := Some r\<rparr>
      in saveTextureToIndexedDB env r s1)"

text \<open>
  The lighting and the camera of the viewer as \<open>saveCurrentSettings\<close> captures them
  (lines 802-823).
\<close>

definition lighting_of :: "GlobeViewer \<Rightarrow> Lighting" where
  "lighting_of s =
     \<lparr>ambientBrightness_s = ambientBrightness s,
      directionalBrightness_s = directionalBrightness s,
      lightRotation_s = lightRotation s\<rparr>"

definition camera_of :: "GlobeViewer \<Rightarrow> CameraSettings" where
  "camera_of s = \<lparr>position = camera_position s, target = controls_target s\<rparr>"

text \<open>
  \<open>saveCurrentSettings\<close> (lines 795-841), without the button's confirmation text. The
  assignment to \<open>this.currentUploadEntry.savedSettings\<close> changes the entry object in
  place, so every list that holds its address sees the change.
\<close>

definition saveCurrentSettings :: "Env \<Rightarrow> GlobeViewer \<Rightarrow> GlobeViewer" where
  "saveCurrentSettings env s =
     (case currentUploadEntry s of
        None \<Rightarrow>
          s\<lparr>trace := trace s @
            [Alerted ''No uploaded texture to save settings for. Please upload an image first.'']\<rparr>
      | Some r \<Rightarrow>
          (let cameraSettings = camera_of s;
               settings = \<lparr>lighting = Some (lighting_of s), camera = Some cameraSettings\<rparr>;
               s1 = s\<lparr>objects := (objects s)[r := (objects s ! r)\<lparr>savedSettings := Some settings\<rparr>]\<rparr>
           in saveTextureToIndexedDB env r s1))"

text \<open>
  \<open>restoreSavedSettings\<close> (lines 843-895), called with a non-null argument. The
  sliders mirror the three lighting fields and are left out.
\<close>

definition restoreSavedSettings :: "Env \<Rightarrow> SavedSettings \<Rightarrow> GlobeViewer \<Rightarrow> GlobeViewer" where
  "restoreSavedSettings env settings s =
     (let s1 = (case lighting settings of
                  None \<Rightarrow> s
                | Some l \<Rightarrow>
                    updateLighting
                      (s\<lparr>ambientBrightness := ambientBrightness_s l,
                         directionalBrightness := directionalBrightness_s l,
                         lightRotation := lightRotation_s l,
                         trace := trace s @ [LightingRestored l]\<rparr>))
      in case camera settings of
           None \<Rightarrow> s1
         | Some c \<Rightarrow>
             controlsUpdate env
               (s1\<lparr>camera_position := position c, controls_target := target c,
                   trace := trace s1 @ [CameraRestored c]\<rparr>))"

text \<open>
  The entries of the history, in order (what the gallery shows), and the records of the
  persistent store.
\<close>

definition getAll :: "GlobeViewer \<Rightarrow> UploadEntry list" where
  "getAll s = map (\<lambda>r. objects s ! r) (uploadHistory s)"

definition stored :: "GlobeViewer \<Rightarrow> UploadEntry list" where
  "stored s = (case db s of None \<Rightarrow> [] | Some store \<Rightarrow> store)"

text \<open>A sequence of calls of \<open>saveTextureToIndexedDB\<close>, each with its entry.\<close>

definition put_all :: "(Env \<times> nat) list \<Rightarrow> GlobeViewer \<Rightarrow> GlobeViewer" where
  "put_all ps s = foldl (\<lambda>s' (env, r). saveTextureToIndexedDB env r s') s ps"

text \<open>
  Entries ordered by time stamp, newest first: with ties allowed, and without.
\<close>

definition newest_first :: "UploadEntry list \<Rightarrow> bool" where
  "newest_first es = sorted_wrt (\<lambda>a b. b \<le> a) (map timestamp es)"

definition strictly_newest_first :: "UploadEntry list \<Rightarrow> bool" where
  "strictly_newest_first es = sorted_wrt (\<lambda>a b. b < a) (map timestamp es)"

text \<open>
  Insertion into a list that is ordered by a key, greatest first (the order of the
  cursor).
\<close>

fun ins_desc :: "('a \<Rightarrow> 'k::linorder) \<Rightarrow> 'a \<Rightarrow> 'a list \<Rightarrow> 'a list" where
  "ins_desc k e [] = [e]"
| "ins_desc k e (x # xs) = (if k x \<le> k e then e # x # xs else x # ins_desc k e xs)"

section \<open>The load of the default texture\<close>

text \<open>
  \<open>loadDefaultTexture\<close> (lines 150-210): the call, \<open>img.onload\<close>, which
  creates the new texture before it disposes of the old one, and \<open>img.onerror\<close>,
  which installs the fallback texture of \<open>createFallbackTexture\<close> (lines 212-250)
  and shows no message.
\<close>

definition loadDefaultTexture :: "bool \<Rightarrow> GlobeViewer \<Rightarrow> GlobeViewer" where
  "loadDefaultTexture skipLoading s =
     (let s1 = (if \<not> skipLoading then showLoading ''Loading default texture...'' s else s)
      in s1\<lparr>pending := pending s1 @ [DecodingDefault skipLoading]\<rparr>)"

definition loadDefaultTexture_onload :: "bool \<Rightarrow> GlobeViewer \<Rightarrow> GlobeViewer" where
  "loadDefaultTexture_onload skipLoading s =
     (let (texture, s1) = newTexture ''assets/earth.png'' s;
          s2 = disposeCurrentTexture s1;
          s3 = s2\<lparr>material_map := Some texture, currentTexture := Some texture,
                  trace := trace s2 @ [TextureBound texture]\<rparr>;
          s4 = updateLighting s3
      in if \<not> skipLoading then hideLoading s4 else s4)"

definition createFallbackTexture :: "GlobeViewer \<Rightarrow> GlobeViewer" where
  "createFallbackTexture s =
     (let fallbackTexture = CanvasTexture (textures_created s)
      in s\<lparr>textures_created := Suc (textures_created s),
            material_map := Some fallbackTexture, currentTexture := Some fallbackTexture,
            trace := trace s @ [TextureCreated fallbackTexture, TextureBound fallbackTexture]\<rparr>)"

definition loadDefaultTexture_onerror :: "bool \<Rightarrow> GlobeViewer \<Rightarrow> GlobeViewer" where
  "loadDefaultTexture_onerror skipLoading s =
     (let s1 = createFallbackTexture s
      in if \<not> skipLoading then hideLoading s1 else s1)"

section \<open>The three load paths of the user\<close>

definition validTypes :: "string list" where
  "validTypes = [''image/jpeg'', ''image/jpg'', ''image/png'', ''image/webp'']"

definition maxSize :: nat where
  "maxSize = 50 * 1024 * 1024"

text \<open>
  \<open>loadTexture\<close> (lines 312-401), the part that runs at the call: the type check with
  its early return, the size warning, the loading overlay, and the start of the
  \<open>FileReader\<close>.
\<close>

definition loadTexture :: "File \<Rightarrow> GlobeViewer \<Rightarrow> GlobeViewer" where
  "loadTexture file s =
     (if file_type file \<notin> set validTypes then
        showError ''Please drop a valid image file (JPG, PNG, or WebP)'' s
      else
        (let s1 = (if file_size file > maxSize
                   then showError ''Image file is quite large and may cause performance issues'' s
                   else s);
             s2 = showLoading (''Loading '' @ file_name file @ ''...'') s1
         in s2\<lparr>pending := pending s2 @ [ReadingFile file]\<rparr>))"

text \<open>
  \<open>img.onload\<close> of \<open>loadTexture\<close> (lines 334-385), with the calls into the
  renderer, the canvas and IndexedDB taken to succeed.
\<close>

definition loadTexture_img_onload :: "Env \<Rightarrow> File \<Rightarrow> string \<Rightarrow> GlobeViewer \<Rightarrow> GlobeViewer" where
  "loadTexture_img_onload env file src s =
     (let s1 = disposeCurrentTexture s;
          (texture, s2) = newTexture src s1;
          s3 = s2\<lparr>material_map := Some texture, currentTexture := Some texture,
                  trace := trace s2 @ [TextureBound texture]\<rparr>;
          s4 = updateLighting s3;
          s5 = addToUploadHistory env file src s4;
          s6 = (if \<not> autoRotate s5 then toggleAutoRotate s5 else s5)
      in hideLoading s6)"

text \<open>\<open>img.onerror\<close> (lines 387-390) and \<open>reader.onerror\<close> (lines 395-398).\<close>

definition loadTexture_img_onerror :: "GlobeViewer \<Rightarrow> GlobeViewer" where
  "loadTexture_img_onerror s =
     hideLoading (showError ''Failed to load image - file may be corrupted'' s)"

definition loadTexture_reader_onerror :: "GlobeViewer \<Rightarrow> GlobeViewer" where
  "loadTexture_reader_onerror s = hideLoading (showError ''Failed to read file'' s)"

text \<open>\<open>loadTextureFromUrl\<close> (lines 508-557): the call, \<open>img.onload\<close> and \<open>img.onerror\<close>.\<close>

definition loadTextureFromUrl :: "string \<Rightarrow> GlobeViewer \<Rightarrow> GlobeViewer" where
  "loadTextureFromUrl url s =
     (let popped = last (js_split (CHR ''/'') url);
          fileName = (if popped = [] then ''texture'' else popped);
          s1 = showLoading (''Loading '' @ fileName @ ''...'') s
      in s1\<lparr>pending := pending s1 @ [DecodingUrl url]\<rparr>)"

definition loadTextureFromUrl_onload :: "string \<Rightarrow> GlobeViewer \<Rightarrow> GlobeViewer" where
  "loadTextureFromUrl_onload src s =
     (let s1 = disposeCurrentTexture s;
          (texture, s2) = newTexture src s1;
          s3 = s2\<lparr>material_map := Some texture, currentTexture := Some texture,
                  trace := trace s2 @ [MaterialDisposed, TextureBound texture]\<rparr>;
          s4 = (if \<not> autoRotate s3 then toggleAutoRotate s3 else s3)
      in hideLoading s4)"

definition loadTextureFromUrl_onerror :: "GlobeViewer \<Rightarrow> GlobeViewer" where
  "loadTextureFromUrl_onerror s = hideLoading (showError ''Failed to load example texture'' s)"

text \<open>
  \<open>loadTextureFromDataUrl\<close> (lines 559-632): the call, \<open>img.onload\<close> and
  \<open>img.onerror\<close>. An empty \<open>fileName\<close> is falsy like \<open>null\<close>.
\<close>

definition loadTextureFromDataUrl ::
  "string \<Rightarrow> SavedSettings option \<Rightarrow> string option \<Rightarrow> nat option \<Rightarrow> GlobeViewer \<Rightarrow> GlobeViewer" where
  "loadTextureFromDataUrl dataUrl settings fileName uploadEntry s =
     (let loadingText =
            (case fileName of
               None \<Rightarrow> ''Loading cached texture...''
             | Some n \<Rightarrow> if n = [] then ''Loading cached texture...'' else ''Loading '' @ n @ ''...'');
          s1 = showLoading loadingText s
      in s1\<lparr>pending := pending s1 @ [DecodingDataUrl dataUrl settings uploadEntry]\<rparr>)"

definition loadTextureFromDataUrl_onload ::
  "Env \<Rightarrow> string \<Rightarrow> SavedSettings option \<Rightarrow> nat option \<Rightarrow> GlobeViewer \<Rightarrow> GlobeViewer" where
  "loadTextureFromDataUrl_onload env src settings uploadEntry s =
     (let s1 = disposeCurrentTexture s;
          (texture, s2) = newTexture src s1;
          s3 = s2\<lparr>material_map := Some texture, currentTexture := Some texture,
                  trace := trace s2 @ [TextureBound texture]\<rparr>;
          s4 = s3\<lparr>currentUploadEntry := uploadEntry\<rparr>;
          s5 = (case settings of
                  None \<Rightarrow> s4
                | Some st \<Rightarrow> restoreSavedSettings env st s4);
          s6 = (if autoRotate s5 then toggleAutoRotate s5 else s5)
      in hideLoading s6)"

definition loadTextureFromDataUrl_onerror :: "GlobeViewer \<Rightarrow> GlobeViewer" where
  "loadTextureFromDataUrl_onerror s = hideLoading (showError ''Failed to load cached texture'' s)"

text \<open>
  The click handler of a gallery item (lines 689-691): it reads the entry object at the
  time of the click.
\<close>

definition clickUserTexture :: "nat \<Rightarrow> GlobeViewer \<Rightarrow> GlobeViewer" where
  "clickUserTexture i s =
     (if i < length (userTextures s) then
        (let r = userTextures s ! i;
             upload = objects s ! r
         in loadTextureFromDataUrl (originalDataUrl upload) (savedSettings upload)
              (Some (name upload)) (Some r) s)
      else s)"

section \<open>Completion of the operations in flight\<close>

text \<open>
  One completion callback, run to its end (the program has a single thread of control).
  A successful file read hands its data URL to an image (\<open>img.src = e.target.result\<close>,
  line 392), which then decodes.
\<close>

fun fire :: "Pending \<Rightarrow> Completion \<Rightarrow> GlobeViewer \<Rightarrow> GlobeViewer" where
  "fire (DecodingDefault skipLoading) (ImgLoaded env) s = loadDefaultTexture_onload skipLoading s"
| "fire (DecodingDefault skipLoading) ImgError s = loadDefaultTexture_onerror skipLoading s"
| "fire (ReadingFile file) (ReaderLoaded result) s =
     s\<lparr>pending := pending s @ [DecodingFile file result]\<rparr>"
| "fire (ReadingFile file) ReaderError s = loadTexture_reader_onerror s"
| "fire (DecodingFile file src) (ImgLoaded env) s = loadTexture_img_onload env file src s"
| "fire (DecodingFile file src) ImgError s = loadTexture_img_onerror s"
| "fire (DecodingUrl url) (ImgLoaded env) s = loadTextureFromUrl_onload url s"
| "fire (DecodingUrl url) ImgError s = loadTextureFromUrl_onerror s"
| "fire (DecodingDataUrl dataUrl settings uploadEntry) (ImgLoaded env) s =
     loadTextureFromDataUrl_onload env dataUrl settings uploadEntry s"
| "fire (DecodingDataUrl dataUrl settings uploadEntry) ImgError s =
     loadTextureFromDataUrl_onerror s"
| "fire p c s = s"

text \<open>
  The \<open>k\<close>-th operation in flight completes: it leaves \<open>pending\<close> and its callback
  runs. Completions may come in any order.
\<close>

definition complete_pending :: "nat \<Rightarrow> Completion \<Rightarrow> GlobeViewer \<Rightarrow> GlobeViewer" where
  "complete_pending k c s =
     (if k < length (pending s) then
        fire (pending s ! k) c (s\<lparr>pending := take k (pending s) @ drop (Suc k) (pending s)\<rparr>)
      else s)"

text \<open>
  \<open>request.onsuccess\<close> of \<open>initIndexedDB\<close> (lines 704-707), with the records found.
\<close>

definition initIndexedDB_onsuccess :: "Env \<Rightarrow> UploadEntry list \<Rightarrow> GlobeViewer \<Rightarrow> GlobeViewer" where
  "initIndexedDB_onsuccess env store s = loadUploadHistory env (s\<lparr>db := Some store\<rparr>)"

section \<open>The viewer as a transition system\<close>

text \<open>
  The events that touch the texture or the history: a dropped file (line 296), a click on
  a preset (line 473) or on a gallery item (line 690), the completion of an operation in
  flight (a load of the user, or the load of the default texture that the constructor
  starts), the buttons for saving the view (line 487), clearing the history (line 481)
  and toggling auto-rotation (line 419), and the opening of the database.
\<close>

datatype Event =
    Drop File
  | ClickDefaultTexture string
  | ClickUserTexture nat
  | Completes nat Completion
  | SaveCurrentSettings Env
  | ClearHistory Env
  | DbOpened Env "UploadEntry list"
  | ToggleAutoRotate

fun step :: "GlobeViewer \<Rightarrow> Event \<Rightarrow> GlobeViewer" where
  "step s (Drop file) = loadTexture file s"
| "step s (ClickDefaultTexture url) = loadTextureFromUrl url s"
| "step s (ClickUserTexture i) = clickUserTexture i s"
| "step s (Completes k c) = complete_pending k c s"
| "step s (SaveCurrentSettings env) = saveCurrentSettings env s"
| "step s (ClearHistory env) = clearUploadHistory env s"
| "step s (DbOpened env store) =
     (if db s = None then initIndexedDB_onsuccess env store s else s)"
| "step s ToggleAutoRotate = toggleAutoRotate s"

definition run :: "GlobeViewer \<Rightarrow> Event list \<Rightarrow> GlobeViewer" where
  "run s evs = foldl step s evs"

section \<open>Texture objects retained\<close>

text \<open>
  The texture objects that were created and not disposed of after a sequence of effects.
\<close>

fun retained_after :: "Texture list \<Rightarrow> Effect \<Rightarrow> Texture list" where
  "retained_after ts (TextureCreated t) = ts @ [t]"
| "retained_after ts (TextureDisposed t) = filter (\<lambda>u. u \<noteq> t) ts"
| "retained_after ts e = ts"

definition retained :: "Effect list \<Rightarrow> Texture list" where
  "retained es = foldl retained_after [] es"

text \<open>At no point of the sequence are two texture objects retained.\<close>

definition never_two :: "Effect list \<Rightarrow> bool" where
  "never_two es = list_all (\<lambda>p. length (retained p) \<le> 1) (prefixes es)"

text \<open>
  The viewer is the sole owner of one texture: the retained texture objects are the bound
  one and no other, and there never were two.
\<close>

definition bound_texture :: "GlobeViewer \<Rightarrow> Texture list" where
  "bound_texture s = (case currentTexture s of None \<Rightarrow> [] | Some t \<Rightarrow> [t])"

definition sole_owner :: "GlobeViewer \<Rightarrow> bool" where
  "sole_owner s = (retained (trace s) = bound_texture s \<and> never_two (trace s))"


text \<open>
  The effects with which a successful decode starts (the release of the bound texture,
  if there is one) and with which \<open>restoreSavedSettings\<close> goes through the settings
  it is given.
\<close>

definition disposal :: "GlobeViewer \<Rightarrow> Effect list" where
  "disposal s = (case currentTexture s of None \<Rightarrow> [] | Some t \<Rightarrow> [TextureDisposed t])"



fun is_default :: "Pending \<Rightarrow> bool" where
  "is_default (DecodingDefault skipLoading) = True"
| "is_default p = False"

definition startup_done :: "GlobeViewer \<Rightarrow> bool" where
  "startup_done s = list_all (\<lambda>p. \<not> is_default p) (pending s)"

section \<open>The viewer after construction\<close>

text \<open>
  The fields as the constructor leaves them (lines 5-29, 46, 71, 112, 951): no texture
  bound yet and the image of the default texture decoding
  (\<open>loadDefaultTexture(true)\<close>), the default lighting, the camera at \<open>z = 3\<close>,
  auto-rotation on, an empty history, no database connection, and the loading overlay of
  the startup sequence. The effects are recorded from here on.
\<close>

definition GlobeViewer_new :: GlobeViewer where
  "GlobeViewer_new =
     \<lparr>currentTexture = None, material_map = None,
      lightRotation = 45, ambientBrightness = 9 / 10, directionalBrightness = 12 / 10,
      ambientLight_intensity = 9 / 10, directionalLight_intensity = 12 / 10,
      directionalLight_position = (cos (45 * pi / 180) * 5, 0, sin (45 * pi / 180) * 5),
      autoRotate = True, controls_autoRotate = True,
      camera_position = (0, 0, 3), controls_target = (0, 0, 0),
      uploadHistory = [], db = None, currentUploadEntry = None,
      errorMessage_text = [], errorMessage_hidden = True,
      loadingOverlay_text = ''Initializing Globe Viewer...'', loadingOverlay_visible = True,
      userTextures = [], objects = [], textures_created = 0,
      pending = [DecodingDefault True], trace = []\<rparr>"

section \<open>Example inputs\<close>

text \<open>
  An environment in which the clock reads \<open>t\<close>, IndexedDB works and the camera
  library leaves the camera where it is put; two files; and a record as an earlier
  session left it in the store.
\<close>

definition env_at :: "nat \<Rightarrow> Env" where
  "env_at t =
     \<lparr>thumbnail = ''data:thumb'', dateNow = t, mathRandom = 1 / 2, newDate = t,
      putOk = True, cursorOk = True, orbit = (\<lambda>rotate p t. (p, t))\<rparr>"

definition file_A :: File where
  "file_A = \<lparr>file_name = ''A.png'', file_type = ''image/png'', file_size = 2000000\<rparr>"

definition file_B :: File where
  "file_B = \<lparr>file_name = ''B.jpg'', file_type = ''image/jpeg'', file_size = 1000\<rparr>"

definition stored_entry :: "nat \<Rightarrow> UploadEntry" where
  "stored_entry n =
     \<lparr>ident = real n + 1 / 2, name = ''old'', thumbnailUrl = ''data:thumb'',
      originalDataUrl = ''data:old'', timestamp = n, savedSettings = None\<rparr>"


text \<open>
  Without a connection, after the default texture has loaded: a file is uploaded and the
  view is saved; and two files are uploaded, the first is picked again from the gallery,
  and the view is saved.
\<close>

definition save_after_upload :: "Event list" where
  "save_after_upload =
     [Completes 0 (ImgLoaded (env_at 0)),
      Drop file_A, Completes 0 (ReaderLoaded ''data:A''), Completes 0 (ImgLoaded (env_at 100)),
      SaveCurrentSettings (env_at 150)]"

definition reput_events :: "Event list" where
  "reput_events =
     [Completes 0 (ImgLoaded (env_at 0)),
      Drop file_A, Completes 0 (ReaderLoaded ''data:A''), Completes 0 (ImgLoaded (env_at 100)),
      Drop file_B, Completes 0 (ReaderLoaded ''data:B''), Completes 0 (ImgLoaded (env_at 200)),
      ClickUserTexture 1, Completes 0 (ImgLoaded (env_at 300)),
      SaveCurrentSettings (env_at 400)]"

definition after_upload :: GlobeViewer where
  "after_upload =
     run GlobeViewer_new
       [Completes 0 (ImgLoaded (env_at 0)),
        Drop file_A, Completes 0 (ReaderLoaded ''data:A''), Completes 0 (ImgLoaded (env_at 100))]"

text \<open>
  With a connection: the database opens empty and two uploads finish in the same
  millisecond; and the database opens with ten records and an eleventh image is uploaded.
\<close>

definition same_time_uploads :: GlobeViewer where
  "same_time_uploads =
     loadTexture_img_onload ((env_at 100)\<lparr>mathRandom := 3 / 4\<rparr>) file_B ''data:B''
       (loadTexture_img_onload (env_at 100) file_A ''data:A''
          (initIndexedDB_onsuccess (env_at 0) [] GlobeViewer_new))"

definition full_store :: "UploadEntry list" where
  "full_store =
     [stored_entry 1, stored_entry 2, stored_entry 3, stored_entry 4, stored_entry 5,
      stored_entry 6, stored_entry 7, stored_entry 8, stored_entry 9, stored_entry 10]"

definition opened_with_ten :: GlobeViewer where
  "opened_with_ten = initIndexedDB_onsuccess (env_at 0) full_store GlobeViewer_new"

definition eleventh_upload :: GlobeViewer where
  "eleventh_upload = loadTexture_img_onload (env_at 11) file_A ''data:A'' opened_with_ten"

text \<open>
  A viewer without a connection that holds ten entries and the object of an eleventh,
  and one that holds three entry objects.
\<close>

definition ten_in_memory :: GlobeViewer where
  "ten_in_memory =
     GlobeViewer_new
       \<lparr>objects := full_store @ [stored_entry 11],
        uploadHistory := [9, 8, 7, 6, 5, 4, 3, 2, 1, 0],
        userTextures := [9, 8, 7, 6, 5, 4, 3, 2, 1, 0]\<rparr>"

definition three_in_memory :: GlobeViewer where
  "three_in_memory = GlobeViewer_new\<lparr>objects := [stored_entry 1, stored_entry 2, stored_entry 3]\<rparr>"




text \<open>
  A preset is picked and decodes while the default texture is still loading; then the
  load of the default texture fails.
\<close>

definition late_default_error :: "Event list" where
  "late_default_error =
     [ClickDefaultTexture ''assets/mars.jpg'', Completes 1 (ImgLoaded (env_at 0)),
      Completes 0 ImgError]"

text \<open>
  Operations in flight, one of each kind of load of the user.
\<close>

definition loads_in_flight :: GlobeViewer where
  "loads_in_flight =
     GlobeViewer_new
       \<lparr>pending := [ReadingFile file_A, DecodingFile file_B ''data:B'',
                    DecodingUrl ''assets/mars.jpg'', DecodingDataUrl ''data:A'' None None,
                    DecodingDefault True]\<rparr>"

text \<open>
  The database opens with eleven records, left by an earlier session: ten are listed. The
  object of a twelfth entry is there.
\<close>

definition eleven_in_store :: GlobeViewer where
  "eleven_in_store =
     (initIndexedDB_onsuccess (env_at 0) (stored_entry 11 # full_store) GlobeViewer_new)
       \<lparr>objects :=
          objects (initIndexedDB_onsuccess (env_at 0) (stored_entry 11 # full_store) GlobeViewer_new)
          @ [stored_entry 12]\<rparr>"

section \<open>Basic facts\<close>

lemmas small_defs = showError_def showLoading_def hideLoading_def toggleAutoRotate_def
  updateLighting_def disposeCurrentTexture_def newTexture_def updateUploadHistoryUI_def
  controlsUpdate_def

lemma new_starts_default_load:
  "loadDefaultTexture True (GlobeViewer_new\<lparr>pending := []\<rparr>) = GlobeViewer_new"
  by (simp add: loadDefaultTexture_def GlobeViewer_new_def)

lemma js_split_nonempty: "js_split c xs \<noteq> []"
  by (induction xs) (auto split: list.splits)

lemma hd_js_split: "hd (js_split c xs) = takeWhile (\<lambda>x. x \<noteq> c) xs"
  by (induction xs) (auto split: list.splits simp: js_split_nonempty)

lemma objects_save_nth:
  "i < length (objects s) \<Longrightarrow> objects (saveTextureToIndexedDB env r s) ! i = objects s ! i"
  by (simp add: saveTextureToIndexedDB_def loadUploadHistory_def updateUploadHistoryUI_def
      Let_def nth_append split: option.splits)

lemma currentUploadEntry_save:
  "currentUploadEntry (saveTextureToIndexedDB env r s) = currentUploadEntry s"
  by (simp add: saveTextureToIndexedDB_def loadUploadHistory_def updateUploadHistoryUI_def
      Let_def split: option.splits)

lemma autoRotate_save: "autoRotate (saveTextureToIndexedDB env r s) = autoRotate s"
  by (simp add: saveTextureToIndexedDB_def loadUploadHistory_def updateUploadHistoryUI_def
      Let_def split: option.splits)

lemma autoRotate_restore: "autoRotate (restoreSavedSettings env st s) = autoRotate s"
  by (simp add: restoreSavedSettings_def updateLighting_def controlsUpdate_def Let_def
      split: option.splits prod.splits)

section \<open>Each operation as one update of the state\<close>

text \<open>
  What \<open>saveTextureToIndexedDB\<close> does in each of its four cases: no connection, a
  failed write, a write whose read-back fails, and a write that is read back.
\<close>

lemma save_in_memory:
  "db s = None \<Longrightarrow>
   saveTextureToIndexedDB env r s =
     s\<lparr>uploadHistory := take 10 (r # uploadHistory s),
       userTextures := take 10 (r # uploadHistory s)\<rparr>"
  by (simp add: saveTextureToIndexedDB_def updateUploadHistoryUI_def Let_def)

lemma save_failed:
  "db s = Some store \<Longrightarrow> \<not> putOk env \<Longrightarrow> saveTextureToIndexedDB env r s = s"
  by (simp add: saveTextureToIndexedDB_def)

lemma save_unread:
  "db s = Some store \<Longrightarrow> putOk env \<Longrightarrow> \<not> cursorOk env \<Longrightarrow>
   saveTextureToIndexedDB env r s = s\<lparr>db := Some (store_put (objects s ! r) store)\<rparr>"
  by (simp add: saveTextureToIndexedDB_def loadUploadHistory_def)

lemma save_in_store:
  "db s = Some store \<Longrightarrow> putOk env \<Longrightarrow> cursorOk env \<Longrightarrow>
   saveTextureToIndexedDB env r s =
     s\<lparr>db := Some (store_put (objects s ! r) store),
       objects := objects s @ openCursor_prev (store_put (objects s ! r) store),
       uploadHistory :=
         take 10 [length (objects s) ..<
                  length (objects s) + length (openCursor_prev (store_put (objects s ! r) store))],
       userTextures :=
         take 10 [length (objects s) ..<
                  length (objects s) + length (openCursor_prev (store_put (objects s ! r) store))]\<rparr>"
  by (simp add: saveTextureToIndexedDB_def loadUploadHistory_def updateUploadHistoryUI_def Let_def)


lemma db_save_None: "db s = None \<Longrightarrow> db (saveTextureToIndexedDB env r s) = None"
  by (simp add: save_in_memory)

lemma db_save_Some: "db s \<noteq> None \<Longrightarrow> db (saveTextureToIndexedDB env r s) \<noteq> None"
  by (auto simp: saveTextureToIndexedDB_def loadUploadHistory_def updateUploadHistoryUI_def Let_def
      split: option.splits)

text \<open>The start of a load of an accepted file of ordinary size.\<close>

lemma loadTexture_accepted:
  "file_type file \<in> set validTypes \<Longrightarrow> \<not> maxSize < file_size file \<Longrightarrow>
   loadTexture file s =
     s\<lparr>loadingOverlay_text := ''Loading '' @ file_name file @ ''...'',
       loadingOverlay_visible := True,
       trace := trace s @ [LoadingShown (''Loading '' @ file_name file @ ''...'')],
       pending := pending s @ [ReadingFile file]\<rparr>"
  by (simp add: loadTexture_def showLoading_def Let_def)

text \<open>The three successful decodes; the one of a dropped file without a connection.\<close>

lemma add_in_memory:
  "db s = None \<Longrightarrow>
   addToUploadHistory env file src s =
     s\<lparr>objects := objects s @ [new_uploadEntry env file src],
       currentUploadEntry := Some (length (objects s)),
       uploadHistory := take 10 (length (objects s) # uploadHistory s),
       userTextures := take 10 (length (objects s) # uploadHistory s)\<rparr>"
  by (simp add: addToUploadHistory_def save_in_memory Let_def)

lemma file_onload_in_memory:
  "db s = None \<Longrightarrow>
   loadTexture_img_onload env file src s =
     s\<lparr>currentTexture := Some (Texture (textures_created s) src),
       material_map := Some (Texture (textures_created s) src),
       textures_created := Suc (textures_created s),
       ambientLight_intensity := ambientBrightness s,
       directionalLight_intensity := directionalBrightness s,
       directionalLight_position :=
         (cos (lightRotation s * pi / 180) * 5, fst (snd (camera_position s)),
          sin (lightRotation s * pi / 180) * 5),
       objects := objects s @ [new_uploadEntry env file src],
       currentUploadEntry := Some (length (objects s)),
       uploadHistory := take 10 (length (objects s) # uploadHistory s),
       userTextures := take 10 (length (objects s) # uploadHistory s),
       autoRotate := True,
       controls_autoRotate := (if autoRotate s then controls_autoRotate s else True),
       loadingOverlay_visible := False,
       trace := trace s @ disposal s @
         [TextureCreated (Texture (textures_created s) src),
          TextureBound (Texture (textures_created s) src), LoadingHidden]\<rparr>"
  by (simp add: loadTexture_img_onload_def add_in_memory small_defs disposal_def Let_def
      split: option.splits)

lemma url_onload_update:
  "loadTextureFromUrl_onload src s =
     s\<lparr>currentTexture := Some (Texture (textures_created s) src),
       material_map := Some (Texture (textures_created s) src),
       textures_created := Suc (textures_created s),
       autoRotate := True,
       controls_autoRotate := (if autoRotate s then controls_autoRotate s else True),
       loadingOverlay_visible := False,
       trace := trace s @ disposal s @
         [TextureCreated (Texture (textures_created s) src), MaterialDisposed,
          TextureBound (Texture (textures_created s) src), LoadingHidden]\<rparr>"
  by (simp add: loadTextureFromUrl_onload_def small_defs disposal_def Let_def
      split: option.splits)

lemma dataurl_onload_plain:
  "loadTextureFromDataUrl_onload env src None uploadEntry s =
     s\<lparr>currentTexture := Some (Texture (textures_created s) src),
       material_map := Some (Texture (textures_created s) src),
       textures_created := Suc (textures_created s),
       currentUploadEntry := uploadEntry,
       autoRotate := False,
       controls_autoRotate := (if autoRotate s then False else controls_autoRotate s),
       loadingOverlay_visible := False,
       trace := trace s @ disposal s @
         [TextureCreated (Texture (textures_created s) src),
          TextureBound (Texture (textures_created s) src), LoadingHidden]\<rparr>"
  by (simp add: loadTextureFromDataUrl_onload_def small_defs disposal_def Let_def
      split: option.splits)

text \<open>The two ends of the startup load of the default texture.\<close>

lemma default_onload_update:
  "loadDefaultTexture_onload True s =
     s\<lparr>currentTexture := Some (Texture (textures_created s) ''assets/earth.png''),
       material_map := Some (Texture (textures_created s) ''assets/earth.png''),
       textures_created := Suc (textures_created s),
       ambientLight_intensity := ambientBrightness s,
       directionalLight_intensity := directionalBrightness s,
       directionalLight_position :=
         (cos (lightRotation s * pi / 180) * 5, fst (snd (camera_position s)),
          sin (lightRotation s * pi / 180) * 5),
       trace := trace s @ TextureCreated (Texture (textures_created s) ''assets/earth.png'')
         # disposal s @ [TextureBound (Texture (textures_created s) ''assets/earth.png'')]\<rparr>"
  by (simp add: loadDefaultTexture_onload_def small_defs disposal_def Let_def
      split: option.splits)

lemma default_onerror_update:
  "loadDefaultTexture_onerror True s =
     s\<lparr>currentTexture := Some (CanvasTexture (textures_created s)),
       material_map := Some (CanvasTexture (textures_created s)),
       textures_created := Suc (textures_created s),
       trace := trace s @ [TextureCreated (CanvasTexture (textures_created s)),
                           TextureBound (CanvasTexture (textures_created s))]\<rparr>"
  by (simp add: loadDefaultTexture_onerror_def createFallbackTexture_def Let_def)




text \<open>Rules that run a sequence of events on a viewer without a connection.\<close>

lemmas run_simps = run_def complete_pending_def loadTexture_accepted file_onload_in_memory
  url_onload_update dataurl_onload_plain default_onload_update default_onerror_update
  disposal_def
  loadTextureFromUrl_def loadTextureFromDataUrl_def clickUserTexture_def showLoading_def
  validTypes_def maxSize_def Let_def GlobeViewer_new_def env_at_def file_A_def file_B_def

section \<open>Auto-rotation after a load\<close>

text \<open>
  The two paths that load a new image restart auto-rotation
  (\<open>if (!this.autoRotate) this.toggleAutoRotate()\<close>, lines 373-375 and 543-545).
\<close>

lemma autoRotate_after_url_load: "autoRotate (loadTextureFromUrl_onload src s) = True"
  by (simp add: loadTextureFromUrl_onload_def small_defs Let_def split: option.splits prod.splits)

lemma autoRotate_after_file_load: "autoRotate (loadTexture_img_onload env file src s) = True"
  by (simp add: loadTexture_img_onload_def addToUploadHistory_def small_defs Let_def
      autoRotate_save split: option.splits prod.splits)

text \<open>
  Claim C2. The claim is that every successful load, whatever its path, ends with
  auto-rotation on. The path of a cached history entry tests the flag the other way
  round (\<open>if (this.autoRotate) this.toggleAutoRotate()\<close>, lines 612-614, under the
  comment "Restart auto-rotation when new texture is loaded"): whatever the flag was
  before, it is off when \<open>img.onload\<close> of \<open>loadTextureFromDataUrl\<close> returns.
\<close>

theorem C2_cached_load_leaves_autoRotate_off:
  "autoRotate (loadTextureFromDataUrl_onload env src settings uploadEntry s) = False
   \<and> controls_autoRotate (loadTextureFromDataUrl_onload env src settings uploadEntry
        (s\<lparr>autoRotate := True\<rparr>)) = False"
  by (simp add: loadTextureFromDataUrl_onload_def restoreSavedSettings_def small_defs Let_def
      split: option.splits prod.splits)

section \<open>Validation of a dropped file\<close>

text \<open>
  Claim C7. A file whose MIME type is not one of the accepted ones (JPEG under its two
  labels, PNG, WebP) is rejected at the call: the only change is the error message, no
  file read or decode is started, and the history, the store and the bound texture are
  as before. A file of an accepted type and more than 50 MB gets the size warning, and
  the load goes on: the loading overlay is shown and the file read is in flight.
\<close>

theorem C7_unsupported_type_rejected_large_file_warned:
  "(file_type file \<notin> set validTypes \<longrightarrow>
      loadTexture file s =
        s\<lparr>errorMessage_text := ''Please drop a valid image file (JPG, PNG, or WebP)'',
          errorMessage_hidden := False,
          trace := trace s @ [ErrorShown ''Please drop a valid image file (JPG, PNG, or WebP)'']\<rparr>
      \<and> pending (loadTexture file s) = pending s
      \<and> getAll (loadTexture file s) = getAll s
      \<and> db (loadTexture file s) = db s
      \<and> currentTexture (loadTexture file s) = currentTexture s
      \<and> material_map (loadTexture file s) = material_map s)
   \<and> (file_type file \<in> set validTypes \<and> maxSize < file_size file \<longrightarrow>
      trace (loadTexture file s) =
        trace s @ [ErrorShown ''Image file is quite large and may cause performance issues'',
                   LoadingShown (''Loading '' @ file_name file @ ''...'')]
      \<and> pending (loadTexture file s) = pending s @ [ReadingFile file]
      \<and> loadingOverlay_visible (loadTexture file s))"
  by (simp add: loadTexture_def showError_def showLoading_def getAll_def Let_def)

theorem C7_witness:
  "loadTexture \<lparr>file_name = ''doc.pdf'', file_type = ''application/pdf'', file_size = 1000\<rparr>
       GlobeViewer_new
     = GlobeViewer_new
         \<lparr>errorMessage_text := ''Please drop a valid image file (JPG, PNG, or WebP)'',
          errorMessage_hidden := False,
          trace := [ErrorShown ''Please drop a valid image file (JPG, PNG, or WebP)'']\<rparr>
   \<and> pending (loadTexture \<lparr>file_name = ''big.png'', file_type = ''image/png'',
                              file_size = 60000000\<rparr> GlobeViewer_new)
     = [DecodingDefault True,
        ReadingFile \<lparr>file_name = ''big.png'', file_type = ''image/png'', file_size = 60000000\<rparr>]
   \<and> trace (loadTexture \<lparr>file_name = ''big.png'', file_type = ''image/png'',
                              file_size = 60000000\<rparr> GlobeViewer_new)
     = [ErrorShown ''Image file is quite large and may cause performance issues'',
        LoadingShown ''Loading big.png...'']"
  using
    C7_unsupported_type_rejected_large_file_warned
      [of "\<lparr>file_name = ''doc.pdf'', file_type = ''application/pdf'', file_size = 1000\<rparr>"
          GlobeViewer_new]
    C7_unsupported_type_rejected_large_file_warned
      [of "\<lparr>file_name = ''big.png'', file_type = ''image/png'', file_size = 60000000\<rparr>"
          GlobeViewer_new]
  by (simp add: validTypes_def maxSize_def GlobeViewer_new_def)

section \<open>Failed reads and decodes\<close>

text \<open>
  Claim C8, as stated: every load whose decode fails shows a message and leaves the bound
  texture as it was. The startup load of the default texture does neither
  (\<open>img.onerror\<close>, lines 200-207): it installs the fallback texture and shows nothing.
  Here a preset is picked and bound while the default texture is still loading; when the
  load of the default texture then fails, the fallback texture replaces the preset and no
  message is shown.
\<close>

theorem C8_counterexample:
  "currentTexture
     (run GlobeViewer_new
        [ClickDefaultTexture ''assets/mars.jpg'', Completes 1 (ImgLoaded (env_at 0))])
     = Some (Texture 0 ''assets/mars.jpg'')
   \<and> currentTexture (run GlobeViewer_new late_default_error) = Some (CanvasTexture 1)
   \<and> material_map (run GlobeViewer_new late_default_error) = Some (CanvasTexture 1)
   \<and> errorMessage_hidden (run GlobeViewer_new late_default_error)
   \<and> trace (run GlobeViewer_new late_default_error) =
       [LoadingShown ''Loading mars.jpg...'',
        TextureCreated (Texture 0 ''assets/mars.jpg''), MaterialDisposed,
        TextureBound (Texture 0 ''assets/mars.jpg''), LoadingHidden,
        TextureCreated (CanvasTexture 1), TextureBound (CanvasTexture 1)]"
  by (simp add: late_default_error_def run_simps)

text \<open>
  Claim C8, amended: when the file read or the image decode of a load of the user (a
  dropped file, a preset, a gallery item) fails, the operation leaves the operations in
  flight, its callback shows its message and hides the loading overlay, and that is all:
  the state after the completion is the state before it with the operation removed and
  the error message, the overlay and the effects updated, so the bound texture, the
  history, the store, the current entry, lighting and camera are as before. The startup
  load of the default texture is different by design: when its decode fails, the fallback
  texture is created and bound, the texture bound before stays as it was (it is not
  released), and no message is shown.
\<close>

theorem C8_failed_user_load_changes_only_messages:
  "(k < length (pending s) \<and> pending s ! k = ReadingFile file \<longrightarrow>
      complete_pending k ReaderError s =
        s\<lparr>pending := take k (pending s) @ drop (Suc k) (pending s),
          errorMessage_text := ''Failed to read file'', errorMessage_hidden := False,
          loadingOverlay_visible := False,
          trace := trace s @ [ErrorShown ''Failed to read file'', LoadingHidden]\<rparr>)
   \<and> (k < length (pending s) \<and> pending s ! k = DecodingFile file src \<longrightarrow>
      complete_pending k ImgError s =
        s\<lparr>pending := take k (pending s) @ drop (Suc k) (pending s),
          errorMessage_text := ''Failed to load image - file may be corrupted'',
          errorMessage_hidden := False, loadingOverlay_visible := False,
          trace := trace s @ [ErrorShown ''Failed to load image - file may be corrupted'',
                              LoadingHidden]\<rparr>)
   \<and> (k < length (pending s) \<and> pending s ! k = DecodingUrl url \<longrightarrow>
      complete_pending k ImgError s =
        s\<lparr>pending := take k (pending s) @ drop (Suc k) (pending s),
          errorMessage_text := ''Failed to load example texture'',
          errorMessage_hidden := False, loadingOverlay_visible := False,
          trace := trace s @ [ErrorShown ''Failed to load example texture'', LoadingHidden]\<rparr>)
   \<and> (k < length (pending s) \<and> pending s ! k = DecodingDataUrl dataUrl settings u \<longrightarrow>
      complete_pending k ImgError s =
        s\<lparr>pending := take k (pending s) @ drop (Suc k) (pending s),
          errorMessage_text := ''Failed to load cached texture'',
          errorMessage_hidden := False, loadingOverlay_visible := False,
          trace := trace s @ [ErrorShown ''Failed to load cached texture'', LoadingHidden]\<rparr>)
   \<and> (k < length (pending s) \<and> pending s ! k = DecodingDefault True \<longrightarrow>
      complete_pending k ImgError s =
        s\<lparr>pending := take k (pending s) @ drop (Suc k) (pending s),
          currentTexture := Some (CanvasTexture (textures_created s)),
          material_map := Some (CanvasTexture (textures_created s)),
          textures_created := Suc (textures_created s),
          trace := trace s @ [TextureCreated (CanvasTexture (textures_created s)),
                              TextureBound (CanvasTexture (textures_created s))]\<rparr>)"
  by (simp add: complete_pending_def loadTexture_reader_onerror_def loadTexture_img_onerror_def
      loadTextureFromUrl_onerror_def loadTextureFromDataUrl_onerror_def showError_def
      hideLoading_def default_onerror_update)

theorem C8_witness:
  "errorMessage_text (complete_pending 0 ReaderError loads_in_flight) = ''Failed to read file''
   \<and> errorMessage_text (complete_pending 1 ImgError loads_in_flight)
       = ''Failed to load image - file may be corrupted''
   \<and> errorMessage_text (complete_pending 2 ImgError loads_in_flight)
       = ''Failed to load example texture''
   \<and> errorMessage_text (complete_pending 3 ImgError loads_in_flight)
       = ''Failed to load cached texture''
   \<and> currentTexture (complete_pending 3 ImgError loads_in_flight) = None
   \<and> pending (complete_pending 3 ImgError loads_in_flight)
       = [ReadingFile file_A, DecodingFile file_B ''data:B'', DecodingUrl ''assets/mars.jpg'',
          DecodingDefault True]
   \<and> currentTexture (complete_pending 4 ImgError loads_in_flight) = Some (CanvasTexture 0)
   \<and> errorMessage_hidden (complete_pending 4 ImgError loads_in_flight)"
proof -
  let ?s = loads_in_flight
  note inst = C8_failed_user_load_changes_only_messages
    [of _ loads_in_flight file_A "''data:B''" "''assets/mars.jpg''" "''data:A''" None None]
  have p: "pending ?s =
             [ReadingFile file_A, DecodingFile file_B ''data:B'', DecodingUrl ''assets/mars.jpg'',
              DecodingDataUrl ''data:A'' None None, DecodingDefault True]"
    and f: "currentTexture ?s = None" "textures_created ?s = 0" "errorMessage_hidden ?s"
    by (simp_all add: loads_in_flight_def GlobeViewer_new_def)
  have "0 < length (pending ?s) \<and> pending ?s ! 0 = ReadingFile file_A"
    unfolding p by simp
  with inst [of 0]
  have "complete_pending 0 ReaderError ?s =
          ?s\<lparr>pending := take 0 (pending ?s) @ drop (Suc 0) (pending ?s),
             errorMessage_text := ''Failed to read file'', errorMessage_hidden := False,
             loadingOverlay_visible := False,
             trace := trace ?s @ [ErrorShown ''Failed to read file'', LoadingHidden]\<rparr>"
    by blast
  then have a: "errorMessage_text (complete_pending 0 ReaderError ?s) = ''Failed to read file''"
    by simp
  have "1 < length (pending ?s) \<and> pending ?s ! 1 = DecodingFile file_B ''data:B''"
    unfolding p by simp
  with C8_failed_user_load_changes_only_messages [of 1 loads_in_flight file_B "''data:B''"]
  have "complete_pending 1 ImgError ?s =
          ?s\<lparr>pending := take 1 (pending ?s) @ drop (Suc 1) (pending ?s),
             errorMessage_text := ''Failed to load image - file may be corrupted'',
             errorMessage_hidden := False, loadingOverlay_visible := False,
             trace := trace ?s @ [ErrorShown ''Failed to load image - file may be corrupted'',
                                 LoadingHidden]\<rparr>"
    by blast
  then have b: "errorMessage_text (complete_pending 1 ImgError ?s)
                  = ''Failed to load image - file may be corrupted''"
    by simp
  have "2 < length (pending ?s) \<and> pending ?s ! 2 = DecodingUrl ''assets/mars.jpg''"
    unfolding p by simp
  with inst [of 2]
  have "complete_pending 2 ImgError ?s =
          ?s\<lparr>pending := take 2 (pending ?s) @ drop (Suc 2) (pending ?s),
             errorMessage_text := ''Failed to load example texture'',
             errorMessage_hidden := False, loadingOverlay_visible := False,
             trace := trace ?s @ [ErrorShown ''Failed to load example texture'',
                                 LoadingHidden]\<rparr>"
    by blast
  then have c: "errorMessage_text (complete_pending 2 ImgError ?s)
                  = ''Failed to load example texture''"
    by simp
  have "3 < length (pending ?s) \<and> pending ?s ! 3 = DecodingDataUrl ''data:A'' None None"
    unfolding p by simp
  with inst [of 3]
  have "complete_pending 3 ImgError ?s =
          ?s\<lparr>pending := take 3 (pending ?s) @ drop (Suc 3) (pending ?s),
             errorMessage_text := ''Failed to load cached texture'',
             errorMessage_hidden := False, loadingOverlay_visible := False,
             trace := trace ?s @ [ErrorShown ''Failed to load cached texture'',
                                 LoadingHidden]\<rparr>"
    by blast
  then have d: "errorMessage_text (complete_pending 3 ImgError ?s)
                  = ''Failed to load cached texture''"
    "currentTexture (complete_pending 3 ImgError ?s) = None"
    "pending (complete_pending 3 ImgError ?s)
       = [ReadingFile file_A, DecodingFile file_B ''data:B'', DecodingUrl ''assets/mars.jpg'',
          DecodingDefault True]"
    by (simp_all add: f p)
  have "4 < length (pending ?s) \<and> pending ?s ! 4 = DecodingDefault True"
    unfolding p by simp
  with inst [of 4]
  have "complete_pending 4 ImgError ?s =
          ?s\<lparr>pending := take 4 (pending ?s) @ drop (Suc 4) (pending ?s),
             currentTexture := Some (CanvasTexture (textures_created ?s)),
             material_map := Some (CanvasTexture (textures_created ?s)),
             textures_created := Suc (textures_created ?s),
             trace := trace ?s @ [TextureCreated (CanvasTexture (textures_created ?s)),
                                 TextureBound (CanvasTexture (textures_created ?s))]\<rparr>"
    by blast
  then have e: "currentTexture (complete_pending 4 ImgError ?s) = Some (CanvasTexture 0)"
    "errorMessage_hidden (complete_pending 4 ImgError ?s)"
    by (simp_all add: f)
  from a b c d e show ?thesis by blast
qed

section \<open>The name of an upload entry\<close>

text \<open>
  Claim C9. The claim is that the entry's name is the file name without its extension,
  so that \<open>a.b.png\<close> gives \<open>a.b\<close>. The code takes \<open>file.name.split('.')[0]\<close>
  (line 648, under the comment "Filename without extension"), the text before the first
  dot: for \<open>a.b.png\<close> the new entry, which is also the current one, is named \<open>a\<close>.
\<close>

theorem C9_name_is_text_before_first_dot:
  "name (objects (addToUploadHistory env
                    \<lparr>file_name = ''a.b.png'', file_type = ty, file_size = sz\<rparr> src s)
         ! length (objects s)) = ''a''
   \<and> currentUploadEntry (addToUploadHistory env
                    \<lparr>file_name = ''a.b.png'', file_type = ty, file_size = sz\<rparr> src s)
       = Some (length (objects s))"
  by (simp add: addToUploadHistory_def new_uploadEntry_def Let_def objects_save_nth
      currentUploadEntry_save)

section \<open>Ownership of the bound texture\<close>

lemma retained_append: "retained (es @ fs) = foldl retained_after (retained es) fs"
  by (simp add: retained_def)

lemma never_two_snoc:
  "never_two (es @ [e]) = (never_two es \<and> length (retained_after (retained es) e) \<le> 1)"
  by (auto simp: never_two_def retained_def)

lemma never_two_append:
  "never_two (es @ fs) =
     (never_two es \<and>
      list_all (\<lambda>p. length (foldl retained_after (retained es) p) \<le> 1) (tl (prefixes fs)))"
proof (induction fs rule: rev_induct)
  case Nil
  then show ?case by simp
next
  case (snoc x xs)
  have "never_two (es @ xs @ [x]) = never_two ((es @ xs) @ [x])" by simp
  also have "\<dots> = (never_two (es @ xs) \<and> length (retained_after (retained (es @ xs)) x) \<le> 1)"
    by (rule never_two_snoc)
  finally show ?case using snoc
    by (auto simp: retained_append)
qed






text \<open>
  Every operation of the user keeps the viewer the sole owner of one texture: a decode
  that completes releases the bound texture before it creates its own.
\<close>

lemma sole_owner_pending [simp]: "sole_owner (s\<lparr>pending := p\<rparr>) = sole_owner s"
  by (simp add: sole_owner_def bound_texture_def)

lemma sole_owner_objects [simp]: "sole_owner (s\<lparr>objects := p\<rparr>) = sole_owner s"
  by (simp add: sole_owner_def bound_texture_def)
















lemma default_onerror_trace:
  "trace (loadDefaultTexture_onerror skipLoading s) =
     trace s @ TextureCreated (CanvasTexture (textures_created s))
       # TextureBound (CanvasTexture (textures_created s))
       # (if skipLoading then [] else [LoadingHidden])"
  "currentTexture (loadDefaultTexture_onerror skipLoading s)
     = Some (CanvasTexture (textures_created s))"
  by (simp_all add: loadDefaultTexture_onerror_def createFallbackTexture_def hideLoading_def
      Let_def)


lemma sole_owner_default_onerror:
  "currentTexture s = None \<Longrightarrow> sole_owner s \<Longrightarrow>
   sole_owner (loadDefaultTexture_onerror skipLoading s)"
  by (auto simp: sole_owner_def default_onerror_trace never_two_append retained_append
      bound_texture_def)

lemma two_retained_after_late_default_error:
  "retained (trace (run GlobeViewer_new late_default_error))
     = [Texture 0 ''assets/mars.jpg'', CanvasTexture 1]
   \<and> bound_texture (run GlobeViewer_new late_default_error) = [CanvasTexture 1]"
  by (simp add: late_default_error_def run_simps retained_def bound_texture_def)



lemma startup_done_pending:
  "startup_done (s\<lparr>pending := ps\<rparr>) = list_all (\<lambda>p. \<not> is_default p) ps"
  by (simp add: startup_done_def)















section \<open>Saved settings on a cached load\<close>



section \<open>The history read back from the store\<close>

lemma nth_fresh_refs:
  "map (\<lambda>r. (xs @ ys) ! r) (take n [length xs ..< length xs + length ys]) = take n ys"
proof -
  have "[length xs ..< length xs + length ys] = map (\<lambda>i. i + length xs) [0 ..< length ys]"
    by (simp add: map_add_upt add.commute)
  then have "map (\<lambda>r. (xs @ ys) ! r) [length xs ..< length xs + length ys]
      = map (\<lambda>i. ys ! i) [0 ..< length ys]"
    by (simp add: comp_def nth_append)
  also have "\<dots> = ys"
    by (rule map_nth)
  finally show ?thesis
    by (simp flip: take_map)
qed

lemma getAll_save_in_store:
  "db s = Some store \<Longrightarrow> putOk env \<Longrightarrow> cursorOk env \<Longrightarrow>
   getAll (saveTextureToIndexedDB env r s) = take 10 (openCursor_prev (store_put (objects s ! r) store))"
  by (simp add: save_in_store getAll_def nth_fresh_refs)

lemma dbopen_update:
  "cursorOk env \<Longrightarrow>
   initIndexedDB_onsuccess env store s =
     s\<lparr>db := Some store,
       objects := objects s @ openCursor_prev store,
       uploadHistory :=
         take 10 [length (objects s) ..< length (objects s) + length (openCursor_prev store)],
       userTextures :=
         take 10 [length (objects s) ..< length (objects s) + length (openCursor_prev store)]\<rparr>"
  by (simp add: initIndexedDB_onsuccess_def loadUploadHistory_def updateUploadHistoryUI_def Let_def)

lemma getAll_dbopen:
  "cursorOk env \<Longrightarrow> getAll (initIndexedDB_onsuccess env store s) = take 10 (openCursor_prev store)"
  by (simp add: dbopen_update getAll_def nth_fresh_refs)

lemma db_dbopen: "db (initIndexedDB_onsuccess env store s) = Some store"
  by (simp add: initIndexedDB_onsuccess_def loadUploadHistory_def updateUploadHistoryUI_def Let_def)

lemma db_file_onload:
  "db s = Some store \<Longrightarrow> putOk env \<Longrightarrow>
   db (loadTexture_img_onload env file src s) = Some (store_put (new_uploadEntry env file src) store)"
  by (simp add: loadTexture_img_onload_def addToUploadHistory_def saveTextureToIndexedDB_def
      loadUploadHistory_def small_defs Let_def split: option.splits prod.splits)

lemma getAll_file_onload:
  "db s = Some store \<Longrightarrow> putOk env \<Longrightarrow> cursorOk env \<Longrightarrow>
   getAll (loadTexture_img_onload env file src s)
     = take 10 (openCursor_prev (store_put (new_uploadEntry env file src) store))"
proof -
  assume a: "db s = Some store" "putOk env" "cursorOk env"
  let ?s4 = "updateLighting
      ((snd (newTexture src (disposeCurrentTexture s)))
         \<lparr>material_map := Some (fst (newTexture src (disposeCurrentTexture s))),
          currentTexture := Some (fst (newTexture src (disposeCurrentTexture s))),
          trace := trace (snd (newTexture src (disposeCurrentTexture s))) @
             [TextureBound (fst (newTexture src (disposeCurrentTexture s)))]\<rparr>)"
  have d: "db ?s4 = Some store" and o: "objects ?s4 = objects s"
    using a by (simp_all add: small_defs Let_def split: option.splits)
  have "getAll (loadTexture_img_onload env file src s) = getAll (addToUploadHistory env file src ?s4)"
    by (simp add: loadTexture_img_onload_def getAll_def toggleAutoRotate_def hideLoading_def
        Let_def split: prod.splits)
  also have "\<dots> = take 10 (openCursor_prev (store_put (new_uploadEntry env file src) store))"
    using a d by (simp add: addToUploadHistory_def Let_def getAll_save_in_store)
  finally show ?thesis .
qed

lemma saveCurrentSettings_in_memory:
  "db s = None \<Longrightarrow> currentUploadEntry s = Some r \<Longrightarrow>
   saveCurrentSettings env s =
     s\<lparr>objects := (objects s)
         [r := (objects s ! r)
            \<lparr>savedSettings := Some \<lparr>lighting = Some (lighting_of s), camera = Some (camera_of s)\<rparr>\<rparr>],
       uploadHistory := take 10 (r # uploadHistory s),
       userTextures := take 10 (r # uploadHistory s)\<rparr>"
  by (simp add: saveCurrentSettings_def save_in_memory Let_def)

lemma newest_first_cursor: "newest_first (openCursor_prev store)"
proof -
  have "sorted (map index_key (sort_key index_key store))"
    by (rule sorted_sort_key)
  then have "sorted (map fst (map index_key (sort_key index_key store)))"
    by (rule sorted_wrt_map_mono) (auto simp: less_eq_prod_def)
  then have "sorted (map timestamp (sort_key index_key store))"
    by (simp add: index_key_def comp_def)
  then show ?thesis
    by (simp add: newest_first_def openCursor_prev_def sorted_wrt_rev flip: rev_map)
qed

lemma newest_first_take: "newest_first es \<Longrightarrow> newest_first (take n es)"
  by (simp add: newest_first_def sorted_wrt_take flip: take_map)

lemma store_put_fresh: "ident e \<notin> ident ` set store \<Longrightarrow> store_put e store = e # store"
  by (simp add: store_put_def filter_id_conv) (metis image_eqI)

lemma distinct_cursor: "distinct store \<Longrightarrow> distinct (openCursor_prev store)"
  by (simp add: openCursor_prev_def)

lemma set_cursor: "set (openCursor_prev store) = set store"
  by (simp add: openCursor_prev_def)

lemma length_cursor: "length (openCursor_prev store) = length store"
  by (simp add: openCursor_prev_def)

lemma last_cursor_oldest:
  assumes "store \<noteq> []" "y \<in> set store"
  shows "timestamp (last (openCursor_prev store)) \<le> timestamp y"
proof -
  let ?xs = "sort_key index_key store"
  have "length ?xs = length store" by simp
  then have ne: "?xs \<noteq> []" using assms(1) by (cases ?xs) auto
  have "sorted (map index_key ?xs)" by (rule sorted_sort_key)
  moreover have "y \<in> set ?xs" using assms(2) by simp
  ultimately have "index_key (hd ?xs) \<le> index_key y"
    using ne by (cases ?xs) auto
  then have "timestamp (hd ?xs) \<le> timestamp y"
    by (auto simp: index_key_def less_eq_prod_def)
  then show ?thesis
    using ne by (simp add: openCursor_prev_def last_rev)
qed

lemma take_butlast_Suc: "length xs = Suc n \<Longrightarrow> take n xs = butlast xs"
  by (simp add: butlast_conv_take)

lemma set_butlast_distinct: "distinct xs \<Longrightarrow> xs \<noteq> [] \<Longrightarrow> set (butlast xs) = set xs - {last xs}"
  by (cases xs rule: rev_cases) auto
lemma last_newest_first:
  "newest_first es \<Longrightarrow> y \<in> set es \<Longrightarrow> timestamp (last es) \<le> timestamp y"
proof (induction es)
  case Nil
  then show ?case by simp
next
  case (Cons e es)
  then show ?case
    by (cases "es = []") (auto simp: newest_first_def)
qed

text \<open>
  The cursor after a put of a record with a new key: the record is inserted into the
  order the cursor had, and what the first \<open>n\<close> records are depends only on what they
  were before.
\<close>

lemma set_ins_desc: "set (ins_desc k e xs) = insert e (set xs)"
  by (induction xs) auto

lemma length_ins_desc: "length (ins_desc k e xs) = Suc (length xs)"
  by (induction xs) auto

lemma distinct_ins_desc: "distinct xs \<Longrightarrow> e \<notin> set xs \<Longrightarrow> distinct (ins_desc k e xs)"
  by (induction xs) (auto simp: set_ins_desc)

lemma ins_desc_snoc: "k a \<le> k e \<Longrightarrow> ins_desc k e (xs @ [a]) = ins_desc k e xs @ [a]"
  by (induction xs) auto

lemma ins_desc_greater: "\<forall>x \<in> set xs. \<not> k x \<le> k e \<Longrightarrow> ins_desc k e xs = xs @ [e]"
  by (induction xs) auto

lemma rev_insort_key:
  "sorted (map k xs) \<Longrightarrow> k e \<notin> k ` set xs \<Longrightarrow>
   rev (insort_key k e xs) = ins_desc k e (rev xs)"
proof (induction xs)
  case Nil
  then show ?case by simp
next
  case (Cons a xs)
  show ?case
  proof (cases "k e \<le> k a")
    case True
    have "\<forall>x \<in> set (rev (a # xs)). \<not> k x \<le> k e"
      using Cons.prems True by fastforce
    then have "ins_desc k e (rev (a # xs)) = rev (a # xs) @ [e]"
      by (rule ins_desc_greater)
    then show ?thesis using True by simp
  next
    case False
    then have "k a \<le> k e" by simp
    then have "ins_desc k e (rev xs @ [a]) = ins_desc k e (rev xs) @ [a]"
      by (rule ins_desc_snoc)
    moreover have "rev (insort_key k e xs) = ins_desc k e (rev xs)"
      using Cons by simp
    ultimately show ?thesis using False by simp
  qed
qed

lemma take_Cons_take: "take n (x # take n xs) = take n (x # xs)"
  by (cases n) simp_all

lemma take_ins_desc: "take n (ins_desc k e xs) = take n (ins_desc k e (take n xs))"
proof (induction xs arbitrary: n)
  case Nil
  then show ?case by simp
next
  case (Cons x xs)
  show ?case
  proof (cases n)
    case 0
    then show ?thesis by simp
  next
    case (Suc m)
    show ?thesis
    proof (cases "k x \<le> k e")
      case True
      then show ?thesis using Suc by (simp add: take_Cons_take)
    next
      case False
      then show ?thesis using Suc Cons.IH[of m] by simp
    qed
  qed
qed

lemma sorted_desc_ins_desc:
  "sorted_wrt (\<lambda>a b. k b \<le> k a) xs \<Longrightarrow> sorted_wrt (\<lambda>a b. k b \<le> k a) (ins_desc k e xs)"
  by (induction xs) (auto simp: set_ins_desc)

lemma last_sorted_desc:
  fixes k :: "'a \<Rightarrow> 'k::linorder"
  shows "sorted_wrt (\<lambda>a b. k b \<le> k a) xs \<Longrightarrow> y \<in> set xs \<Longrightarrow> k (last xs) \<le> k y"
  by (induction xs) auto

lemma sorted_desc_cursor: "sorted_wrt (\<lambda>a b. index_key b \<le> index_key a) (openCursor_prev store)"
proof -
  have "sorted (map index_key (sort_key index_key store))"
    by (rule sorted_sort_key)
  then show ?thesis
    by (simp add: openCursor_prev_def sorted_wrt_rev sorted_map)
qed

lemma cursor_put_fresh:
  assumes "ident e \<notin> ident ` set store"
  shows "openCursor_prev (e # store) = ins_desc index_key e (openCursor_prev store)"
proof -
  have "index_key e \<notin> index_key ` set (sort_key index_key store)"
    using assms by (auto simp: index_key_def)
  then have "rev (insort_key index_key e (sort_key index_key store))
               = ins_desc index_key e (rev (sort_key index_key store))"
    by (intro rev_insort_key sorted_sort_key)
  then show ?thesis
    by (simp add: openCursor_prev_def)
qed

lemma timestamp_index_key: "index_key x \<le> index_key y \<Longrightarrow> timestamp x \<le> timestamp y"
  by (auto simp: index_key_def less_eq_prod_def)

lemma eleventh_in_store:
  assumes "db s = Some store" and "distinct (map ident store)"
    and "ident (objects s ! r) \<notin> ident ` set store" and "putOk env" and "cursorOk env"
    and "getAll s = take 10 (openCursor_prev store)" and "length (getAll s) = 10"
  shows "stored (saveTextureToIndexedDB env r s) = objects s ! r # store
     \<and> getAll (saveTextureToIndexedDB env r s)
         = take 10 (openCursor_prev (objects s ! r # store))
     \<and> length (getAll (saveTextureToIndexedDB env r s)) = 10
     \<and> (\<exists>x \<in> set (objects s ! r # getAll s).
           set (getAll (saveTextureToIndexedDB env r s)) = set (objects s ! r # getAll s) - {x}
           \<and> (\<forall>y \<in> set (objects s ! r # getAll s). timestamp x \<le> timestamp y)
           \<and> x \<in> set (stored (saveTextureToIndexedDB env r s)))"
proof -
  let ?e = "objects s ! r"
  let ?s' = "saveTextureToIndexedDB env r s"
  let ?D = "ins_desc index_key ?e (getAll s)"
  have put: "store_put ?e store = ?e # store"
    using assms(3) by (rule store_put_fresh)
  have st: "stored ?s' = ?e # store"
    using assms(1,4,5) by (simp add: stored_def save_in_store put)
  have all: "getAll ?s' = take 10 (openCursor_prev (?e # store))"
    using assms(1,4,5) by (simp add: getAll_save_in_store put)
  also have "\<dots> = take 10 (ins_desc index_key ?e (openCursor_prev store))"
    by (simp only: cursor_put_fresh[OF assms(3)])
  also have "\<dots> = take 10 ?D"
    unfolding assms(6) by (rule take_ins_desc)
  finally have g: "getAll ?s' = take 10 ?D" .
  have len: "length ?D = Suc 10"
    using assms(7) by (simp only: length_ins_desc)
  then have ne: "?D \<noteq> []" by auto
  have tb: "take 10 ?D = butlast ?D"
    using len by (rule take_butlast_Suc)
  have sub: "set (getAll s) \<subseteq> set store"
    unfolding assms(6) using set_take_subset[of 10 "openCursor_prev store"]
    by (simp only: set_cursor)
  have "distinct store"
    using assms(2) by (simp only: distinct_map)
  then have "distinct (getAll s)"
    unfolding assms(6) by (intro distinct_take distinct_cursor)
  moreover have "?e \<notin> set (getAll s)"
    using sub assms(3) by auto
  ultimately have dD: "distinct ?D"
    by (rule distinct_ins_desc)
  have "sorted_wrt (\<lambda>a b. index_key b \<le> index_key a) (getAll s)"
    unfolding assms(6) by (intro sorted_wrt_take sorted_desc_cursor)
  then have sD: "sorted_wrt (\<lambda>a b. index_key b \<le> index_key a) ?D"
    by (rule sorted_desc_ins_desc)
  have setD: "set ?D = set (?e # getAll s)"
    by (simp add: set_ins_desc)
  have "set (getAll ?s') = set (?e # getAll s) - {last ?D}"
    using set_butlast_distinct[OF dD ne] by (simp only: g tb setD)
  moreover have in11: "last ?D \<in> set (?e # getAll s)"
    using last_in_set[OF ne] by (simp only: setD)
  moreover have "\<forall>y \<in> set (?e # getAll s). timestamp (last ?D) \<le> timestamp y"
    using last_sorted_desc[OF sD] by (auto simp only: setD intro: timestamp_index_key)
  moreover have "last ?D \<in> set (stored ?s')"
    using in11 sub by (auto simp: st)
  moreover have "length (getAll ?s') = 10"
    using len by (simp add: g)
  ultimately show ?thesis
    using st all by (intro conjI bexI[of _ "last ?D"]) assumption+
qed

lemma eleventh_in_memory:
  assumes "db s = None" and "length (uploadHistory s) = 10" and "newest_first (getAll s)"
  shows "getAll (saveTextureToIndexedDB env r s) = objects s ! r # butlast (getAll s)
     \<and> (\<forall>y \<in> set (getAll s). timestamp (last (getAll s)) \<le> timestamp y)"
proof -
  have "take 9 (uploadHistory s) = butlast (uploadHistory s)"
    using assms(2) by (simp add: butlast_conv_take)
  then have "getAll (saveTextureToIndexedDB env r s) = objects s ! r # butlast (getAll s)"
    using assms(1) by (simp add: save_in_memory getAll_def map_butlast)
  then show ?thesis
    using assms(3) by (auto intro: last_newest_first)
qed

lemma length_history_save:
  "length (uploadHistory s) \<le> 10 \<Longrightarrow> length (uploadHistory (saveTextureToIndexedDB env r s)) \<le> 10"
  by (simp add: saveTextureToIndexedDB_def loadUploadHistory_def updateUploadHistoryUI_def Let_def
      split: option.splits)

lemma newest_first_save_in_store:
  assumes "db s \<noteq> None" "newest_first (getAll s)"
  shows "newest_first (getAll (saveTextureToIndexedDB env r s))"
proof -
  from assms(1) obtain store where st: "db s = Some store" by auto
  show ?thesis
  proof (cases "putOk env")
    case False
    with st assms(2) show ?thesis by (simp add: save_failed)
  next
    case True
    show ?thesis
    proof (cases "cursorOk env")
      case False
      with st True assms(2) show ?thesis by (simp add: save_unread getAll_def)
    next
      case c: True
      with st True show ?thesis
        by (simp add: getAll_save_in_store newest_first_take newest_first_cursor)
    qed
  qed
qed

lemma put_all_Nil: "put_all [] s = s"
  by (simp add: put_all_def)

lemma put_all_Cons:
  "put_all ((env, r) # ps) s = put_all ps (saveTextureToIndexedDB env r s)"
  by (simp add: put_all_def)

lemma length_history_put_all:
  "length (uploadHistory s) \<le> 10 \<Longrightarrow> length (uploadHistory (put_all ps s)) \<le> 10"
  by (induction ps arbitrary: s) (auto simp: length_history_save put_all_Nil put_all_Cons)

lemma newest_first_put_all_in_store:
  "db s \<noteq> None \<Longrightarrow> newest_first (getAll s) \<Longrightarrow> newest_first (getAll (put_all ps s))"
proof (induction ps arbitrary: s)
  case Nil
  then show ?case by (simp add: put_all_Nil)
next
  case (Cons p ps)
  obtain env r where p: "p = (env, r)" by (cases p)
  show ?case
    unfolding p put_all_Cons
    by (rule Cons.IH) (simp_all only: db_save_Some[OF Cons.prems(1)]
          newest_first_save_in_store[OF Cons.prems] not_False_eq_True)
qed

lemma take_append_take: "take n (xs @ take n ys) = take n (xs @ ys)"
  by (induction xs arbitrary: n) (auto simp: take_Cons split: nat.splits)

lemma put_all_in_memory:
  "db s = None \<Longrightarrow>
   put_all ps s =
     (if ps = [] then s
      else s\<lparr>uploadHistory := take 10 (rev (map snd ps) @ uploadHistory s),
             userTextures := take 10 (rev (map snd ps) @ uploadHistory s)\<rparr>)"
proof (induction ps arbitrary: s)
  case Nil
  then show ?case by (simp add: put_all_Nil)
next
  case (Cons p ps)
  obtain env r where p: "p = (env, r)" by (cases p)
  let ?s1 = "saveTextureToIndexedDB env r s"
  have h1: "uploadHistory ?s1 = take 10 (r # uploadHistory s)"
    using Cons.prems by (simp add: save_in_memory del: take_Cons_numeral)
  have "put_all (p # ps) s = put_all ps ?s1"
    by (simp add: p put_all_Cons)
  also have "\<dots> =
      (if ps = [] then ?s1
       else ?s1\<lparr>uploadHistory := take 10 (rev (map snd ps) @ uploadHistory ?s1),
                 userTextures := take 10 (rev (map snd ps) @ uploadHistory ?s1)\<rparr>)"
    by (rule Cons.IH) (rule db_save_None[OF Cons.prems])
  also have "\<dots> =
      s\<lparr>uploadHistory := take 10 (rev (map snd (p # ps)) @ uploadHistory s),
        userTextures := take 10 (rev (map snd (p # ps)) @ uploadHistory s)\<rparr>"
    unfolding h1 take_append_take
    using Cons.prems by (simp add: save_in_memory p del: take_Cons_numeral)
  finally show ?case by simp
qed

lemma newest_first_in_memory:
  assumes "db s = None"
    and "sorted (map (\<lambda>r. timestamp (objects s ! r)) (rev (uploadHistory s) @ map snd ps))"
  shows "newest_first (getAll (put_all ps s))"
proof -
  let ?f = "\<lambda>r. timestamp (objects s ! r)"
  have "sorted_wrt (\<lambda>a b. b \<le> a) (rev (map ?f (rev (uploadHistory s) @ map snd ps)))"
    using assms(2) by (simp only: sorted_wrt_rev)
  then have d: "sorted_wrt (\<lambda>a b. b \<le> a) (map ?f (rev (map snd ps) @ uploadHistory s))"
    by (simp add: rev_map)
  then have "newest_first (map (\<lambda>r. objects s ! r) (rev (map snd ps) @ uploadHistory s))"
    by (simp add: newest_first_def comp_def)
  then have t: "newest_first (take 10 (map (\<lambda>r. objects s ! r) (rev (map snd ps) @ uploadHistory s)))"
    by (rule newest_first_take)
  show ?thesis
  proof (cases "ps = []")
    case True
    with d show ?thesis by (simp add: newest_first_def getAll_def comp_def put_all_Nil)
  next
    case False
    with t assms(1) show ?thesis
      by (simp add: put_all_in_memory getAll_def take_map)
  qed
qed
lemma distinct_ids_store_put:
  "distinct (map ident store) \<Longrightarrow> distinct (map ident (store_put e store))"
  by (auto simp: store_put_def distinct_map_filter)

lemma distinct_ids_cursor:
  "distinct (map ident store) \<Longrightarrow> distinct (map ident (openCursor_prev store))"
  by (simp add: openCursor_prev_def distinct_map)

text \<open>
  With a connection a put replaces the record with the same \<open>id\<close>: neither the store
  nor the history read back from it holds an \<open>id\<close> twice.
\<close>

lemma distinct_ids_in_store:
  assumes "db s = Some store" and "distinct (map ident store)" and "putOk env" and "cursorOk env"
  shows "distinct (map ident (stored (saveTextureToIndexedDB env r s)))"
    and "distinct (map ident (getAll (saveTextureToIndexedDB env r s)))"
proof -
  have d: "distinct (map ident (store_put (objects s ! r) store))"
    using assms(2) by (rule distinct_ids_store_put)
  show "distinct (map ident (stored (saveTextureToIndexedDB env r s)))"
    using assms(1,3,4) d by (simp add: stored_def save_in_store)
  have "distinct (take 10 (map ident (openCursor_prev (store_put (objects s ! r) store))))"
    using d by (intro distinct_take distinct_ids_cursor)
  then show "distinct (map ident (getAll (saveTextureToIndexedDB env r s)))"
    using assms(1,3,4) by (simp add: getAll_save_in_store take_map)
qed

text \<open>Rules that evaluate a concrete store.\<close>

lemmas store_eval = openCursor_prev_def store_put_def index_key_def new_uploadEntry_def
  stored_entry_def env_at_def file_A_def file_B_def

section \<open>At most ten entries, newest first\<close>

text \<open>
  Claim C3, as stated: after every sequence of puts, in both modes, the history has at
  most ten entries, strictly ordered by time stamp, newest first. Without a connection
  the entry is put in front whatever its time stamp: when the first of two uploads is
  picked again and its view is saved, the history reads first, second, first. With a
  connection two uploads of the same millisecond are both listed, so the order by time
  stamp is not strict.
\<close>

theorem C3_counterexample:
  "map timestamp (getAll (run GlobeViewer_new reput_events)) = [100, 200, 100]
   \<and> \<not> newest_first (getAll (run GlobeViewer_new reput_events))
   \<and> map timestamp (getAll same_time_uploads) = [100, 100]
   \<and> \<not> strictly_newest_first (getAll same_time_uploads)"
proof -
  have m: "map timestamp (getAll (run GlobeViewer_new reput_events)) = [100, 200, 100]"
    by (simp add: reput_events_def run_simps saveCurrentSettings_in_memory getAll_def
        new_uploadEntry_def)
  have env: "putOk (env_at t)" "cursorOk (env_at t)" "putOk ((env_at t)\<lparr>mathRandom := x\<rparr>)"
    "cursorOk ((env_at t)\<lparr>mathRandom := x\<rparr>)" for t x
    by (simp_all add: env_at_def)
  have "getAll same_time_uploads =
      take 10 (openCursor_prev
        (store_put (new_uploadEntry ((env_at 100)\<lparr>mathRandom := 3 / 4\<rparr>) file_B ''data:B'')
          (store_put (new_uploadEntry (env_at 100) file_A ''data:A'') [])))"
    unfolding same_time_uploads_def
    by (rule getAll_file_onload) (simp_all add: env db_file_onload db_dbopen)
  then have s: "map timestamp (getAll same_time_uploads) = [100, 100]"
    by (simp add: store_eval)
  show ?thesis
    unfolding newest_first_def strictly_newest_first_def m s by simp
qed

text \<open>
  Claim C3, amended: after every sequence of puts the history has at most ten entries.
  With a connection it is ordered by time stamp, newest first, with ties allowed.
  Without a connection it is ordered so when the entries are put in the order of their
  time stamps.
\<close>

theorem C3_at_most_ten_newest_first:
  "(length (uploadHistory s) \<le> 10 \<longrightarrow> length (getAll (put_all ps s)) \<le> 10)
   \<and> (db s \<noteq> None \<and> newest_first (getAll s) \<longrightarrow> newest_first (getAll (put_all ps s)))
   \<and> (db s = None
        \<and> sorted (map (\<lambda>r. timestamp (objects s ! r)) (rev (uploadHistory s) @ map snd ps))
      \<longrightarrow> newest_first (getAll (put_all ps s)))"
  using length_history_put_all[of s ps] newest_first_put_all_in_store[of s ps]
    newest_first_in_memory[of s ps]
  by (simp add: getAll_def)

theorem C3_witness:
  "length (getAll (put_all [(env_at 20, 0), (env_at 21, 3)] opened_with_ten)) \<le> 10
   \<and> newest_first (getAll (put_all [(env_at 20, 0), (env_at 21, 3)] opened_with_ten))
   \<and> newest_first (getAll (put_all [(env_at 1, 0), (env_at 2, 1), (env_at 3, 2)] three_in_memory))"
proof -
  have c: "cursorOk (env_at 0)"
    by (simp add: env_at_def)
  have a1: "length (uploadHistory opened_with_ten) \<le> 10"
    by (simp add: opened_with_ten_def dbopen_update c)
  have a2: "db opened_with_ten \<noteq> None"
    by (simp add: opened_with_ten_def db_dbopen)
  have a3: "newest_first (getAll opened_with_ten)"
    by (simp add: opened_with_ten_def getAll_dbopen c newest_first_take newest_first_cursor)
  have b1: "db three_in_memory = None"
    by (simp add: three_in_memory_def GlobeViewer_new_def)
  have b2: "sorted (map (\<lambda>r. timestamp (objects three_in_memory ! r))
              (rev (uploadHistory three_in_memory) @ map snd [(env_at 1, 0), (env_at 2, 1), (env_at 3, 2)]))"
    by (simp add: three_in_memory_def GlobeViewer_new_def stored_entry_def)
  from C3_at_most_ten_newest_first[of opened_with_ten "[(env_at 20, 0), (env_at 21, 3)]"] a1 a2 a3
  have "length (getAll (put_all [(env_at 20, 0), (env_at 21, 3)] opened_with_ten)) \<le> 10
     \<and> newest_first (getAll (put_all [(env_at 20, 0), (env_at 21, 3)] opened_with_ten))"
    by blast
  moreover from C3_at_most_ten_newest_first[of three_in_memory "[(env_at 1, 0), (env_at 2, 1), (env_at 3, 2)]"] b1 b2
  have "newest_first (getAll (put_all [(env_at 1, 0), (env_at 2, 1), (env_at 3, 2)] three_in_memory))"
    by blast
  ultimately show ?thesis by simp
qed

section \<open>The eleventh entry\<close>

text \<open>
  Claim C4, as stated: the eleventh entry evicts the oldest one from the list and from
  the persistent store together. The program never deletes a record from the store; the
  list is cut to ten when it is read back. After an eleventh upload the entry of time
  stamp 1 is gone from the list and still in the store, which holds eleven records.
\<close>

theorem C4_counterexample:
  "map timestamp (getAll eleventh_upload) = [11, 10, 9, 8, 7, 6, 5, 4, 3, 2]
   \<and> map timestamp (stored eleventh_upload) = [11, 1, 2, 3, 4, 5, 6, 7, 8, 9, 10]"
proof -
  have env: "putOk (env_at t)" "cursorOk (env_at t)" for t
    by (simp_all add: env_at_def)
  have g: "getAll eleventh_upload =
      take 10 (openCursor_prev (store_put (new_uploadEntry (env_at 11) file_A ''data:A'') full_store))"
    unfolding eleventh_upload_def opened_with_ten_def
    by (rule getAll_file_onload) (simp_all add: env db_dbopen)
  have d: "stored eleventh_upload = store_put (new_uploadEntry (env_at 11) file_A ''data:A'') full_store"
    unfolding eleventh_upload_def opened_with_ten_def
    by (simp add: stored_def db_file_onload db_dbopen env)
  show ?thesis
    unfolding g d full_store_def by (simp add: store_eval)
qed

text \<open>
  Claim C4, amended: the store keeps every record; an entry is dropped from the list
  only. When the history lists ten entries, the ten newest records of the store, and an
  entry with a new \<open>id\<close> is put, the store holds the new record and all it held before,
  and the history read back is the ten newest records of that store: ten of the eleven
  entries made of the new one and the ten listed before, without one whose time stamp is
  the oldest of the eleven, which is still in the store. This holds for a store of any
  size, so for every later put as well. Without a connection a history of ten entries,
  newest first, loses its last entry, the oldest of the ten, and the new entry is put in
  front.
\<close>

theorem C4_eleventh_entry_drops_oldest_from_list:
  "(db s = Some store \<and> distinct (map ident store)
      \<and> ident (objects s ! r) \<notin> ident ` set store \<and> putOk env \<and> cursorOk env
      \<and> getAll s = take 10 (openCursor_prev store) \<and> length (getAll s) = 10 \<longrightarrow>
        stored (saveTextureToIndexedDB env r s) = objects s ! r # store
        \<and> getAll (saveTextureToIndexedDB env r s)
            = take 10 (openCursor_prev (objects s ! r # store))
        \<and> length (getAll (saveTextureToIndexedDB env r s)) = 10
        \<and> (\<exists>x \<in> set (objects s ! r # getAll s).
              set (getAll (saveTextureToIndexedDB env r s))
                = set (objects s ! r # getAll s) - {x}
              \<and> (\<forall>y \<in> set (objects s ! r # getAll s). timestamp x \<le> timestamp y)
              \<and> x \<in> set (stored (saveTextureToIndexedDB env r s))))
   \<and> (db s = None \<and> length (uploadHistory s) = 10 \<and> newest_first (getAll s) \<longrightarrow>
        getAll (saveTextureToIndexedDB env r s) = objects s ! r # butlast (getAll s)
        \<and> (\<forall>y \<in> set (getAll s). timestamp (last (getAll s)) \<le> timestamp y))"
  using eleventh_in_store[of s store r env] eleventh_in_memory[of s env r]
  by blast

theorem C4_witness:
  "map timestamp (getAll eleven_in_store) = [11, 10, 9, 8, 7, 6, 5, 4, 3, 2]
   \<and> stored (saveTextureToIndexedDB (env_at 12) 11 eleven_in_store)
       = stored_entry 12 # stored_entry 11 # full_store
   \<and> map timestamp (getAll (saveTextureToIndexedDB (env_at 12) 11 eleven_in_store))
       = [12, 11, 10, 9, 8, 7, 6, 5, 4, 3]
   \<and> map timestamp (getAll (saveTextureToIndexedDB (env_at 11) 10 ten_in_memory))
       = [11, 10, 9, 8, 7, 6, 5, 4, 3, 2]"
proof -
  let ?store = "stored_entry 11 # full_store"
  have env: "putOk (env_at t)" "cursorOk (env_at t)" for t
    by (simp_all add: env_at_def)
  have a1: "db eleven_in_store = Some ?store"
    by (simp add: eleven_in_store_def db_dbopen)
  have a2: "distinct (map ident ?store)"
    by (simp add: full_store_def stored_entry_def)
  have c: "openCursor_prev ?store =
             [stored_entry 11, stored_entry 10, stored_entry 9, stored_entry 8, stored_entry 7,
              stored_entry 6, stored_entry 5, stored_entry 4, stored_entry 3, stored_entry 2,
              stored_entry 1]"
    by (simp add: full_store_def store_eval stored_entry_def)
  have ob: "objects eleven_in_store = openCursor_prev ?store @ [stored_entry 12]"
    by (simp add: eleven_in_store_def dbopen_update env GlobeViewer_new_def)
  have uh: "uploadHistory eleven_in_store = take 10 [0 ..< length (openCursor_prev ?store)]"
    by (simp add: eleven_in_store_def dbopen_update env GlobeViewer_new_def)
  have g: "getAll eleven_in_store = take 10 (openCursor_prev ?store)"
    unfolding getAll_def ob uh c by (simp add: upt_rec)
  have o: "objects eleven_in_store ! 11 = stored_entry 12"
    unfolding ob c by simp
  have a3: "ident (objects eleven_in_store ! 11) \<notin> ident ` set ?store"
    unfolding o by (simp add: full_store_def stored_entry_def)
  have a4: "length (getAll eleven_in_store) = 10"
    unfolding g c by simp
  have b1: "db ten_in_memory = None"
    by (simp add: ten_in_memory_def GlobeViewer_new_def)
  have b2: "length (uploadHistory ten_in_memory) = 10"
    by (simp add: ten_in_memory_def)
  have gm: "getAll ten_in_memory = rev full_store"
    by (simp add: ten_in_memory_def getAll_def full_store_def)
  have b3: "newest_first (getAll ten_in_memory)"
    unfolding gm by (simp add: newest_first_def full_store_def stored_entry_def)
  have o2: "objects ten_in_memory ! 10 = stored_entry 11"
    by (simp add: ten_in_memory_def full_store_def)
  from C4_eleventh_entry_drops_oldest_from_list[of eleven_in_store ?store 11 "env_at 12"]
       a1 a2 a3 env g a4
  have s: "stored (saveTextureToIndexedDB (env_at 12) 11 eleven_in_store)
             = stored_entry 12 # ?store
     \<and> getAll (saveTextureToIndexedDB (env_at 12) 11 eleven_in_store)
         = take 10 (openCursor_prev (stored_entry 12 # ?store))"
    unfolding o by blast
  have c12: "map timestamp (take 10 (openCursor_prev (stored_entry 12 # ?store)))
               = [12, 11, 10, 9, 8, 7, 6, 5, 4, 3]"
    by (simp add: full_store_def store_eval stored_entry_def)
  from C4_eleventh_entry_drops_oldest_from_list[of ten_in_memory _ 10 "env_at 11"] b1 b2 b3
  have "getAll (saveTextureToIndexedDB (env_at 11) 10 ten_in_memory)
      = stored_entry 11 # butlast (getAll ten_in_memory)"
    unfolding o2 by blast
  then have m: "map timestamp (getAll (saveTextureToIndexedDB (env_at 11) 10 ten_in_memory))
       = [11, 10, 9, 8, 7, 6, 5, 4, 3, 2]"
    unfolding gm by (simp add: full_store_def stored_entry_def)
  have g0: "map timestamp (getAll eleven_in_store) = [11, 10, 9, 8, 7, 6, 5, 4, 3, 2]"
    unfolding g c by (simp add: stored_entry_def)
  from s c12 m g0 show ?thesis by simp
qed


section \<open>A put of an entry that is already in the history\<close>

text \<open>
  Claim C5. The claim is that a put with the \<open>id\<close> of an entry already held replaces
  that entry, in both modes, so that no \<open>id\<close> is held twice. With a connection this is
  so (\<open>distinct_ids_in_store\<close>). Without one \<open>saveTextureToIndexedDB\<close> puts the
  entry in front of the list and removes nothing (lines 723-726): after one upload and
  one click on the button that saves the view, the history holds the uploaded entry
  twice.
\<close>

theorem C5_in_memory_put_duplicates_entry:
  "uploadHistory (run GlobeViewer_new save_after_upload) = [0, 0]
   \<and> map ident (getAll (run GlobeViewer_new save_after_upload)) = [100 + 1 / 2, 100 + 1 / 2]
   \<and> \<not> distinct (map ident (getAll (run GlobeViewer_new save_after_upload)))"
  by (simp add: save_after_upload_def run_simps saveCurrentSettings_in_memory getAll_def
      new_uploadEntry_def)

section \<open>The current upload entry while a preset is shown\<close>

lemma objects_url_onload: "objects (loadTextureFromUrl_onload url s) = objects s"
  by (simp add: url_onload_update)

text \<open>
  The current upload entry changes only when the image of a dropped file has decoded (the
  new entry becomes current) or when the image of a gallery item has decoded (the item's
  entry becomes current).
\<close>

lemma current_entry_fire:
  "currentUploadEntry (fire p c s) = currentUploadEntry s
   \<or> (\<exists>env file src. p = DecodingFile file src \<and> c = ImgLoaded env)
   \<or> (\<exists>env dataUrl settings u. p = DecodingDataUrl dataUrl settings u \<and> c = ImgLoaded env)"
  by (cases p; cases c)
     (simp_all add: url_onload_update loadTexture_reader_onerror_def loadTexture_img_onerror_def
        loadTextureFromUrl_onerror_def loadTextureFromDataUrl_onerror_def
        loadDefaultTexture_onload_def loadDefaultTexture_onerror_def createFallbackTexture_def
        small_defs Let_def split: option.splits)

lemma current_entry_step:
  "currentUploadEntry (step s ev) = currentUploadEntry s
   \<or> (\<exists>k env file src. ev = Completes k (ImgLoaded env) \<and> k < length (pending s)
         \<and> pending s ! k = DecodingFile file src)
   \<or> (\<exists>k env dataUrl settings u. ev = Completes k (ImgLoaded env) \<and> k < length (pending s)
         \<and> pending s ! k = DecodingDataUrl dataUrl settings u)"
proof (cases ev)
  case (Completes k c)
  show ?thesis
  proof (cases "k < length (pending s)")
    case True
    then show ?thesis
      using current_entry_fire[of "pending s ! k" c
          "s\<lparr>pending := take k (pending s) @ drop (Suc k) (pending s)\<rparr>"]
      by (auto simp: Completes complete_pending_def)
  next
    case False
    then show ?thesis by (simp add: Completes complete_pending_def)
  qed
qed (simp_all add: loadTexture_def loadTextureFromUrl_def clickUserTexture_def
      loadTextureFromDataUrl_def showError_def showLoading_def Let_def
      saveCurrentSettings_def currentUploadEntry_save clearUploadHistory_def
      updateUploadHistoryUI_def initIndexedDB_onsuccess_def loadUploadHistory_def
      toggleAutoRotate_def split: option.splits)

text \<open>
  Claim C10. A load from a preset URL leaves the current upload entry as it was, at the
  call, when the image has decoded and when the decode fails. So when the view is saved
  while the preset is the bound texture, the settings captured are attached to the entry
  that was current before the preset was loaded (the last one uploaded or picked from the
  gallery), which stays the current one.
\<close>

theorem C10_preset_load_keeps_current_entry:
  "currentUploadEntry (loadTextureFromUrl url s) = currentUploadEntry s
   \<and> currentUploadEntry (loadTextureFromUrl_onload url s) = currentUploadEntry s
   \<and> currentUploadEntry (loadTextureFromUrl_onerror s) = currentUploadEntry s
   \<and> (currentUploadEntry s = Some r \<and> r < length (objects s) \<longrightarrow>
        currentTexture (loadTextureFromUrl_onload url s) = Some (Texture (textures_created s) url)
        \<and> currentUploadEntry (saveCurrentSettings env (loadTextureFromUrl_onload url s)) = Some r
        \<and> objects (saveCurrentSettings env (loadTextureFromUrl_onload url s)) ! r
            = (objects s ! r)
                \<lparr>savedSettings := Some \<lparr>lighting = Some (lighting_of s), camera = Some (camera_of s)\<rparr>\<rparr>)"
  by (simp add: url_onload_update loadTextureFromUrl_def loadTextureFromUrl_onerror_def
      showLoading_def showError_def hideLoading_def Let_def
      saveCurrentSettings_def currentUploadEntry_save objects_save_nth lighting_of_def camera_of_def)

theorem C10_witness:
  "currentUploadEntry after_upload = Some 0
   \<and> originalDataUrl (objects after_upload ! 0) = ''data:A''
   \<and> currentTexture (loadTextureFromUrl_onload ''assets/mars.jpg'' after_upload)
       = Some (Texture 2 ''assets/mars.jpg'')
   \<and> objects (saveCurrentSettings (env_at 200)
         (loadTextureFromUrl_onload ''assets/mars.jpg'' after_upload)) ! 0
       = (objects after_upload ! 0)
           \<lparr>savedSettings := Some \<lparr>lighting = Some (lighting_of after_upload),
                                     camera = Some (camera_of after_upload)\<rparr>\<rparr>"
proof -
  have a: "currentUploadEntry after_upload = Some 0" "0 < length (objects after_upload)"
    "textures_created after_upload = 2"
    "originalDataUrl (objects after_upload ! 0) = ''data:A''"
    by (simp_all add: after_upload_def run_simps new_uploadEntry_def)
  from C10_preset_load_keeps_current_entry[of "''assets/mars.jpg''" after_upload 0 "env_at 200"] a
  show ?thesis by simp
qed


end
